theory Spec2Isabelle
  imports Main
begin

section \<open>Values, errors and the syntax tree\<close>

text \<open>
  The evaluator of \<^verbatim>\<open>internal/sh/shell.go\<close>, function by function. Go strings are
  byte strings (\<open>string\<close>, a list of 8-bit characters); Go's \<open>int\<close> is read as
  \<open>int\<close>; a pointer that may be \<open>nil\<close> is an \<open>option\<close>; a pair \<open>(value, ok)\<close> or
  \<open>(value, error)\<close> is an \<open>option\<close> or a sum with the error on the left.
\<close>

text \<open>
  The error types of the file differ only in the marker method they add to a
  \<open>NashError\<close>: \<open>errIgnore\<close> has \<open>Ignore\<close>, \<open>errInterrupted\<close> has
  \<open>Interrupted\<close>, \<open>errStopWalking\<close> has \<open>StopWalking\<close>, and the error of a failed
  PATH lookup has \<open>NotFound\<close>. An error value is its text (\<open>Error()\<close>), the marker of
  its type, and the exit status it carries when it comes from a finished process.
\<close>

datatype flavor = Plain | IgnoreErr | InterruptedErr | StopWalkingErr | NotFoundErr

datatype nashError = NashError (Error: string) (flavor: flavor) (exitStatus: "int option")

definition NewError :: "string \<Rightarrow> nashError" where
  "NewError msg = NashError msg Plain None"

definition newErrIgnore :: "string \<Rightarrow> nashError" where
  "newErrIgnore msg = NashError msg IgnoreErr None"

definition newErrInterrupted :: "string \<Rightarrow> nashError" where
  "newErrInterrupted msg = NashError msg InterruptedErr None"

definition newErrStopWalking :: nashError where
  "newErrStopWalking = NashError ''return'' StopWalkingErr None"

definition Ignore :: "nashError \<Rightarrow> bool" where
  "Ignore e = (flavor e = IgnoreErr)"

definition Interrupted :: "nashError \<Rightarrow> bool" where
  "Interrupted e = (flavor e = InterruptedErr)"

definition StopWalking :: "nashError \<Rightarrow> bool" where
  "StopWalking e = (flavor e = StopWalkingErr)"

definition NotFound :: "nashError \<Rightarrow> bool" where
  "NotFound e = (flavor e = NotFoundErr)"

text \<open>
  Expressions. A variable expression carries a non-empty name: its first character (the
  \<open>$\<close> of the Variable token) and the rest, which is the key that \<open>evalVariable\<close>
  looks up (\<open>varName[1:]\<close>).
\<close>

datatype varname = VarName char string

definition Name :: "varname \<Rightarrow> string" where
  "Name v = (case v of VarName c rest \<Rightarrow> c # rest)"

datatype expr =
    StringExpr string bool
  | IntExpr int
  | VarExpr varname
  | IndexExpr varname expr
  | ConcatExpr "expr list"
  | ListExpr "expr list"

datatype redirect = RedirectNode (LeftFD: int) (RightFD: int) (Location: "expr option")

datatype command = CommandNode (cName: string) (Args: "expr list") (Redirects: "redirect list")

datatype node =
    ImportNode expr
  | CommentNode string
  | SetenvNode string
  | AssignmentNode string expr
  | ExecAssignNode string node
  | CommandStmt command
  | PipeNode "command list"
  | RforkNode expr "tree option"
  | IfNode expr string expr "tree option" "tree option"
  | FnDeclNode string "string list" "tree option"
  | FnInvNode string "expr list"
  | ForNode string string "tree option"
  | BindFnNode string string
  | DumpNode "expr option"
  | ReturnNode "expr option"
  | OtherNode
and tree = Tree (treeName: string) (Root: "node list option")

text \<open>Runtime values: a string, a list of values, or a function.\<close>

datatype fnval = Fn (fName: string) (ArgNames: "string list") (fnTree: "tree option")

datatype obj = StrObj string | ListObj "obj list" | FnObj fnval

datatype objType = StringType | ListType | FnType

definition Type :: "obj \<Rightarrow> objType" where
  "Type v = (case v of StrObj _ \<Rightarrow> StringType | ListObj _ \<Rightarrow> ListType | FnObj _ \<Rightarrow> FnType)"

section \<open>Scopes\<close>

datatype stream = OsStream nat | BufferAt nat | Handle nat | NoStream

record scope =
  name :: string
  lambdas :: nat
  isFn :: bool
  currentFile :: string
  interrupted :: bool
  looping :: bool
  stdin :: stream
  stdout :: stream
  stderr :: stream
  env :: "string \<rightharpoonup> obj"
  vars :: "string \<rightharpoonup> obj"
  fns :: "string \<rightharpoonup> fnval"
  builtins :: "string \<rightharpoonup> fnval"
  binds :: "string \<rightharpoonup> fnval"

text \<open>
  A \<open>Shell\<close> is a scope and the pointer to its parent; the chain ends at the root, whose
  parent is \<open>nil\<close>. A parent never points back at a child, so the chain is a value.
\<close>

datatype shell = Shell (self: scope) (parent: "shell option")

fun Environ :: "shell \<Rightarrow> (string \<rightharpoonup> obj)" where
  "Environ (Shell s (Some p)) = Environ p"
| "Environ (Shell s None) = env s"

fun Getenv :: "string \<Rightarrow> shell \<Rightarrow> obj option" where
  "Getenv n (Shell s (Some p)) = Getenv n p"
| "Getenv n (Shell s None) = env s n"

fun GetVar :: "string \<Rightarrow> shell \<Rightarrow> obj option" where
  "GetVar n (Shell s p) =
     (case vars s n of
        Some v \<Rightarrow> Some v
      | None \<Rightarrow> (case p of Some ps \<Rightarrow> GetVar n ps | None \<Rightarrow> None))"

fun GetBuiltin :: "string \<Rightarrow> shell \<Rightarrow> fnval option" where
  "GetBuiltin n (Shell s (Some p)) = GetBuiltin n p"
| "GetBuiltin n (Shell s None) = builtins s n"

fun GetFn :: "string \<Rightarrow> shell \<Rightarrow> fnval option" where
  "GetFn n (Shell s p) =
     (case fns s n of
        Some f \<Rightarrow> Some f
      | None \<Rightarrow> (case p of Some ps \<Rightarrow> GetFn n ps | None \<Rightarrow> None))"

definition Setbindfn :: "string \<Rightarrow> fnval \<Rightarrow> shell \<Rightarrow> shell" where
  "Setbindfn n f sh = Shell ((self sh)\<lparr>binds := (binds (self sh))(n \<mapsto> f)\<rparr>) (parent sh)"

fun Getbindfn :: "string \<Rightarrow> shell \<Rightarrow> fnval option" where
  "Getbindfn n (Shell s p) =
     (case binds s n of
        Some f \<Rightarrow> Some f
      | None \<Rightarrow> (case p of Some ps \<Rightarrow> Getbindfn n ps | None \<Rightarrow> None))"

definition Setvar :: "string \<Rightarrow> obj \<Rightarrow> shell \<Rightarrow> shell" where
  "Setvar n v sh = Shell ((self sh)\<lparr>vars := (vars (self sh))(n \<mapsto> v)\<rparr>) (parent sh)"

fun setIntr :: "bool \<Rightarrow> shell \<Rightarrow> shell" where
  "setIntr b (Shell s (Some p)) = Shell s (Some (setIntr b p))"
| "setIntr b (Shell s None) = Shell (s\<lparr>interrupted := b\<rparr>) None"

fun getIntr :: "shell \<Rightarrow> bool" where
  "getIntr (Shell s (Some p)) = getIntr p"
| "getIntr (Shell s None) = interrupted s"

text \<open>
  \<open>NewSubShell\<close>: the scope a function body runs in. It inherits the parent's streams and
  has no builtins, and its maps are empty.
\<close>

definition NewSubShell :: "string \<Rightarrow> shell \<Rightarrow> shell" where
  "NewSubShell nm p =
     Shell \<lparr>name = nm, lambdas = 0, isFn = True, currentFile = [], interrupted = False,
            looping = False, stdin = stdin (self p), stdout = stdout (self p),
            stderr = stderr (self p), env = Map.empty, vars = Map.empty, fns = Map.empty,
            builtins = Map.empty, binds = Map.empty\<rparr> (Some p)"

text \<open>The struct literal of \<open>NewShell\<close>, before \<open>setup\<close> fills it from the process.\<close>

definition rootShell :: shell where
  "rootShell =
     Shell \<lparr>name = ''parent scope'', lambdas = 0, isFn = False, currentFile = [],
            interrupted = False, looping = False, stdin = OsStream 0, stdout = OsStream 1,
            stderr = OsStream 2, env = Map.empty, vars = Map.empty, fns = Map.empty,
            builtins = Map.empty, binds = Map.empty\<rparr> None"

section \<open>The world outside the evaluator\<close>

text \<open>
  The state an operation of the evaluator works on: the scope chain of the shell the method is
  called on, the environment of the process (\<open>os.Setenv\<close>), the \<open>bytes.Buffer\<close>
  objects by address with the next free address, and everything else that a command, a
  function body or the signal listener can read or change, as one opaque value.
\<close>

record state =
  shl :: shell
  osEnv :: "string \<rightharpoonup> string"
  buffers :: "nat \<Rightarrow> string"
  nextBuffer :: nat
  outside :: nat

text \<open>
  A \<open>Runner\<close> as the evaluator sees it: what it runs, and what the setters have stored in
  it.
\<close>

datatype runnerKind = CmdRunner string | FnRunner fnval

record runner =
  kind :: runnerKind
  runArgs :: "expr list"
  runEnviron :: "string list"
  runStdin :: stream
  runStdout :: stream
  runStderr :: stream

text \<open>
  What the file calls and does not define: the other files of the package (the command and
  function runners, \<open>buildenv\<close>, \<open>executeRfork\<close>, the dump printers, the \<open>String\<close>
  methods that \<open>%s\<close>, \<open>%v\<close> and \<open>%q\<close> print), the parser, and the operating system. They
  are parameters of the model; a runner's \<open>Start\<close> and \<open>Wait\<close> may change the whole
  state, which covers a function body run in a sub-shell and a signal that arrives meanwhile.
\<close>

record world =
  fmtObj :: "obj \<Rightarrow> string"
  fmtType :: "objType \<Rightarrow> string"
  fmtExpr :: "expr \<Rightarrow> string"
  fmtArgs :: "expr list \<Rightarrow> string"
  fmtNode :: "node \<Rightarrow> string"
  atoiError :: "string \<Rightarrow> nashError"
  pathDir :: "string \<Rightarrow> string"
  osStat :: "string \<Rightarrow> state \<Rightarrow> bool option"
  readFile :: "string \<Rightarrow> state \<Rightarrow> nashError + string"
  parse :: "string \<Rightarrow> string \<Rightarrow> nashError + tree"
  buildenv :: "(string \<rightharpoonup> obj) \<Rightarrow> string list"
  NewCmd :: "string \<Rightarrow> state \<Rightarrow> nashError + runner"
  runSetArgs :: "runner \<Rightarrow> expr list \<Rightarrow> state \<Rightarrow> nashError + runner"
  runStdoutPipe :: "runner \<Rightarrow> state \<Rightarrow> (nashError + stream \<times> runner) \<times> state"
  runStart :: "runner \<Rightarrow> state \<Rightarrow> nashError option \<times> state"
  runWait :: "runner \<Rightarrow> state \<Rightarrow> nashError option \<times> state"
  runResults :: "runner \<Rightarrow> state \<Rightarrow> obj option"
  openFile :: "string \<Rightarrow> bool \<Rightarrow> state \<Rightarrow> (nashError + stream) \<times> state"
  netDial :: "string \<Rightarrow> string \<Rightarrow> state \<Rightarrow> (nashError + stream) \<times> state"
  executeRfork :: "node \<Rightarrow> state \<Rightarrow> nashError option \<times> state"
  NewUserFn :: "string \<Rightarrow> state \<Rightarrow> nashError option"
  dump :: "stream \<Rightarrow> state \<Rightarrow> state"

text \<open>
  Modelled from the spec: \<open>Obj.String\<close> is not in the file. "Strings stringify to
  themselves; lists stringify element-by-element (implementation-defined join)": a string is
  its own text, any other value prints as the world prints it.
\<close>

definition String :: "world \<Rightarrow> obj \<Rightarrow> string" where
  "String w v = (case v of StrObj s \<Rightarrow> s | _ \<Rightarrow> fmtObj w v)"

text \<open>
  \<open>os.Setenv\<close> fails with \<open>EINVAL\<close>, and changes nothing, on an empty key, on a key with
  \<open>=\<close> or a NUL byte, and on a value with a NUL byte. \<open>Setenv\<close> drops the error.
\<close>

definition osSetenv :: "string \<Rightarrow> string \<Rightarrow> (string \<rightharpoonup> string) \<Rightarrow> (string \<rightharpoonup> string)" where
  "osSetenv key val e =
     (if key = [] \<or> CHR ''='' \<in> set key \<or> CHR 0x00 \<in> set key \<or> CHR 0x00 \<in> set val
      then e else e(key \<mapsto> val))"

fun Setenv :: "world \<Rightarrow> string \<Rightarrow> obj \<Rightarrow> shell \<Rightarrow> (string \<rightharpoonup> string)
                 \<Rightarrow> shell \<times> (string \<rightharpoonup> string)" where
  "Setenv w n v (Shell s (Some p)) pe =
     (case Setenv w n v p pe of (p', pe') \<Rightarrow> (Shell s (Some p'), pe'))"
| "Setenv w n v (Shell s None) pe =
     (case Setvar n v (Shell s None) of
        Shell s1 p1 \<Rightarrow> (Shell (s1\<lparr>env := (env s1)(n \<mapsto> v)\<rparr>) p1, osSetenv n (String w v) pe))"

text \<open>The scopes of a chain, innermost first; the last one is the root.\<close>

fun scopes :: "shell \<Rightarrow> scope list" where
  "scopes (Shell s p) = s # (case p of Some ps \<Rightarrow> scopes ps | None \<Rightarrow> [])"

fun rootOf :: "shell \<Rightarrow> scope" where
  "rootOf (Shell s (Some p)) = rootOf p"
| "rootOf (Shell s None) = s"

section \<open>Library functions of Go\<close>

text \<open>\<open>strconv.Itoa\<close>: the decimal text of an integer.\<close>

fun natStr :: "nat \<Rightarrow> string" where
  "natStr n =
     (if n < 10 then [char_of (48 + n)] else natStr (n div 10) @ [char_of (48 + n mod 10)])"

declare natStr.simps [simp del]

definition Itoa :: "int \<Rightarrow> string" where
  "Itoa i = (if i < 0 then CHR ''-'' # natStr (nat (- i)) else natStr (nat i))"

text \<open>
  \<open>strconv.Atoi\<close> on a 64-bit platform: an optional sign, then one or more decimal digits,
  and the value must fit an \<open>int64\<close>. \<open>None\<close> is the \<open>*NumError\<close>.
\<close>

definition isDigit :: "char \<Rightarrow> bool" where
  "isDigit c = (48 \<le> (of_char c :: nat) \<and> (of_char c :: nat) \<le> 57)"

definition digitsVal :: "string \<Rightarrow> int" where
  "digitsVal ds = foldl (\<lambda>n c. n * 10 + (of_char c - 48)) 0 ds"

definition Atoi :: "string \<Rightarrow> int option" where
  "Atoi s =
     (let neg = (s \<noteq> [] \<and> hd s = CHR ''-'');
          ds = (if s \<noteq> [] \<and> (hd s = CHR ''-'' \<or> hd s = CHR ''+'') then tl s else s);
          v = (if neg then - digitsVal ds else digitsVal ds)
      in if ds = [] \<or> \<not> list_all isDigit ds then None
         else if v < - (2 ^ 63) \<or> 2 ^ 63 \<le> v then None
         else Some v)"

text \<open>\<open>strings.Join\<close>.\<close>

fun Join :: "string list \<Rightarrow> string \<Rightarrow> string" where
  "Join [] sep = []"
| "Join [x] sep = x"
| "Join (x # y # ys) sep = x @ sep @ Join (y # ys) sep"

section \<open>Evaluation of expressions\<close>

definition Str :: "obj \<Rightarrow> string" where
  "Str v = (case v of StrObj s \<Rightarrow> s | _ \<Rightarrow> [])"

definition List :: "obj \<Rightarrow> obj list" where
  "List v = (case v of ListObj l \<Rightarrow> l | _ \<Rightarrow> [])"

text \<open>
  \<open>evalVariable\<close> on a \<open>VarExpr\<close>: the lookup of the name without its first character.
  \<open>evalIndexedVar\<close> calls \<open>evalVariable\<close> only on such nodes (the indexed variable is
  a \<open>*VarExpr\<close>, the index is passed on when its type is \<open>NodeVarExpr\<close>), which is why the
  two functions are not mutually recursive here.
\<close>

definition evalVarExpr :: "world \<Rightarrow> shell \<Rightarrow> varname \<Rightarrow> nashError + obj" where
  "evalVarExpr w sh vexpr =
     (case vexpr of VarName c rest \<Rightarrow>
        (case GetVar rest sh of
           None \<Rightarrow> Inl (NewError (''Variable '' @ Name vexpr @ '' not set on shell ''
                                   @ name (self sh)))
         | Some v \<Rightarrow> Inr v))"

text \<open>
  The index of an \<open>IndexExpr\<close>: an \<open>IntExpr\<close> gives its value, a \<open>VarExpr\<close> must hold
  a string that \<open>Atoi\<close> parses (\<open>atoiError\<close> is the error \<open>Atoi\<close> returns otherwise). For
  an index of any other node type (the parser builds an \<open>IndexExpr\<close> there from
  \<open>$l[$m[0]]\<close>) the two branches are skipped and \<open>indexNum\<close> keeps its zero value.
\<close>

definition indexNum :: "world \<Rightarrow> shell \<Rightarrow> expr \<Rightarrow> nashError + int" where
  "indexNum w sh index =
     (case index of
        IntExpr i \<Rightarrow> Inr i
      | VarExpr iv \<Rightarrow>
          (case evalVarExpr w sh iv of
             Inl e \<Rightarrow> Inl e
           | Inr idxObj \<Rightarrow>
               if Type idxObj \<noteq> StringType
               then Inl (NewError (''Invalid object type on index value: ''
                                   @ fmtType w (Type idxObj)))
               else (case Atoi (Str idxObj) of
                       None \<Rightarrow> Inl (atoiError w (Str idxObj))
                     | Some n \<Rightarrow> Inr n))
      | _ \<Rightarrow> Inr 0)"

definition evalIndexedVar :: "world \<Rightarrow> shell \<Rightarrow> varname \<Rightarrow> expr \<Rightarrow> nashError + obj" where
  "evalIndexedVar w sh variable index =
     (case evalVarExpr w sh variable of
        Inl e \<Rightarrow> Inl e
      | Inr v \<Rightarrow>
          if Type v \<noteq> ListType
          then Inl (NewError (''Invalid indexing of non-list variable: '' @ fmtType w (Type v)))
          else (case indexNum w sh index of
                  Inl e \<Rightarrow> Inl e
                | Inr i \<Rightarrow>
                    if i < 0 \<or> int (length (List v)) \<le> i
                    then Inl (NewError (''Index out of bounds. len('' @ Name variable
                                        @ '') == '' @ Itoa (int (length (List v)))
                                        @ '', but given '' @ Itoa i))
                    else Inr (List v ! nat i)))"

definition evalVariable :: "world \<Rightarrow> shell \<Rightarrow> expr \<Rightarrow> nashError + obj" where
  "evalVariable w sh a =
     (case a of
        IndexExpr v i \<Rightarrow> evalIndexedVar w sh v i
      | VarExpr vexpr \<Rightarrow> evalVarExpr w sh vexpr
      | _ \<Rightarrow> Inl (NewError (''Invalid eval of non variable argument: '' @ fmtExpr w a)))"

text \<open>The loop of \<open>evalConcat\<close> over the parts, with the text built so far.\<close>

fun concatParts :: "world \<Rightarrow> shell \<Rightarrow> expr list \<Rightarrow> string \<Rightarrow> nashError + string" where
  "concatParts w sh [] pathStr = Inr pathStr"
| "concatParts w sh (part # rest) pathStr =
     (case part of
        ConcatExpr ps \<Rightarrow> Inl (NewError ''Nested concat is not allowed'')
      | StringExpr s q \<Rightarrow> concatParts w sh rest (pathStr @ s)
      | ListExpr items \<Rightarrow>
          Inl (NewError (''Concat of lists is not allowed: '' @ fmtExpr w part))
      | IntExpr i \<Rightarrow> Inl (NewError (''Invalid argument: '' @ fmtExpr w part))
      | _ \<Rightarrow>
          (case evalVariable w sh part of
             Inl e \<Rightarrow> Inl e
           | Inr partValues \<Rightarrow>
               if Type partValues = ListType
               then Inl (NewError (''Concat of list variables is not allowed: ''
                                   @ fmtExpr w part @ '' = '' @ fmtObj w partValues))
               else if Type partValues \<noteq> StringType
               then Inl (NewError (''Invalid concat element: '' @ fmtObj w partValues))
               else concatParts w sh rest (pathStr @ Str partValues)))"

definition evalConcat :: "world \<Rightarrow> shell \<Rightarrow> expr \<Rightarrow> nashError + string" where
  "evalConcat w sh path =
     (case path of
        ConcatExpr parts \<Rightarrow> concatParts w sh parts []
      | _ \<Rightarrow> Inl (NewError (''Invalid node '' @ fmtExpr w path)))"

text \<open>
  \<open>evalExpr\<close> and the loop of \<open>evalList\<close>, which stops at the first item that fails.
\<close>

fun evalExpr :: "world \<Rightarrow> shell \<Rightarrow> expr \<Rightarrow> nashError + obj"
  and evalListItems :: "world \<Rightarrow> shell \<Rightarrow> expr list \<Rightarrow> obj list \<Rightarrow> nashError + obj" where
  "evalExpr w sh (StringExpr s q) = Inr (StrObj s)"
| "evalExpr w sh (ConcatExpr ps) =
     (case evalConcat w sh (ConcatExpr ps) of Inl e \<Rightarrow> Inl e | Inr argVal \<Rightarrow> Inr (StrObj argVal))"
| "evalExpr w sh (VarExpr v) = evalVariable w sh (VarExpr v)"
| "evalExpr w sh (IndexExpr v i) = evalIndexedVar w sh v i"
| "evalExpr w sh (ListExpr items) = evalListItems w sh items []"
| "evalExpr w sh (IntExpr i) = Inl (NewError (''Invalid argument type: '' @ fmtExpr w (IntExpr i)))"
| "evalListItems w sh [] values = Inr (ListObj values)"
| "evalListItems w sh (arg # rest) values =
     (case evalExpr w sh arg of
        Inl e \<Rightarrow> Inl e
      | Inr v \<Rightarrow> evalListItems w sh rest (values @ [v]))"

definition evalList :: "world \<Rightarrow> shell \<Rightarrow> expr list \<Rightarrow> nashError + obj" where
  "evalList w sh argList = evalListItems w sh argList []"

text \<open>\<open>strings.Split\<close> with a separator of one byte.\<close>

fun Split :: "string \<Rightarrow> char \<Rightarrow> string list" where
  "Split [] sep = [[]]"
| "Split (c # cs) sep =
     (if c = sep then [] # Split cs sep
      else (case Split cs sep of p # ps \<Rightarrow> (c # p) # ps | [] \<Rightarrow> [[c]]))"

section \<open>Redirections\<close>

text \<open>
  Modelled from the spec: the redirect sentinels of package \<open>ast\<close>, which is not among the
  sources: "\<open>RedirMapNoValue = -1\<close>, \<open>RedirMapSupress = -2\<close>".
\<close>

definition RedirMapNoValue :: int where
  "RedirMapNoValue = - 1"

definition RedirMapSupress :: int where
  "RedirMapSupress = - 2"

text \<open>
  \<open>openRedirectLocation\<close>. \<open>openFile path create\<close> is \<open>os.OpenFile\<close> with
  \<open>O_RDWR\<close>, and \<open>O_CREATE\<close> when \<open>create\<close> holds; \<open>netDial\<close> is \<open>net.Dial\<close>.
\<close>

definition openRedirectLocation :: "world \<Rightarrow> state \<Rightarrow> expr \<Rightarrow> (nashError + stream) \<times> state" where
  "openRedirectLocation w st location =
     (case evalExpr w (shl st) location of
        Inl e \<Rightarrow> (Inl e, st)
      | Inr locationObj \<Rightarrow>
          if Type locationObj \<noteq> StringType
          then (Inl (NewError (''Redirection to invalid object type: '' @ fmtObj w locationObj
                               @ '' ('' @ fmtType w (Type locationObj) @ '')'')), st)
          else
            let locationStr = Str locationObj;
                protocol =
                  (if length locationStr > 6
                   then (if take 6 locationStr = ''tcp://'' then ''tcp''
                         else if take 6 locationStr = ''udp://'' then ''udp''
                         else if length locationStr > 7 \<and> take 7 locationStr = ''unix://''
                         then ''unix'' else [])
                   else [])
            in if protocol = [] then openFile w locationStr True st
               else if protocol = ''tcp'' \<or> protocol = ''udp''
               then (let netParts = Split (drop 6 locationStr) CHR '':''
                     in if length netParts \<noteq> 2
                        then (Inl (NewError (''Invalid tcp/udp address: '' @ locationStr)), st)
                        else netDial w protocol (netParts ! 0 @ '':'' @ netParts ! 1) st)
               else netDial w protocol (drop 7 locationStr) st)"

text \<open>
  \<open>buildRedirect\<close> and \<open>setRedirects\<close>. They return the runner with its streams set, the
  error, and the state (a file that was opened exists afterwards). The list of files to close
  after the wait is not kept: closing them changes nothing that the evaluator reads.
\<close>

definition missingFile :: "int \<Rightarrow> nashError" where
  "missingFile fd = NewError (''Missing file in redirection: >['' @ Itoa fd @ ''] <??>'')"

definition redirectTo :: "world \<Rightarrow> state \<Rightarrow> runner \<Rightarrow> redirect \<Rightarrow> bool
                           \<Rightarrow> runner \<times> nashError option \<times> state" where
  "redirectTo w st cmd redirDecl toStdout =
     (case Location redirDecl of
        None \<Rightarrow> (cmd, Some (missingFile (LeftFD redirDecl)), st)
      | Some location \<Rightarrow>
          (case openRedirectLocation w st location of
             (Inl e, st1) \<Rightarrow> (cmd, Some e, st1)
           | (Inr file, st1) \<Rightarrow>
               (if toStdout then cmd\<lparr>runStdout := file\<rparr> else cmd\<lparr>runStderr := file\<rparr>,
                None, st1)))"

definition redirectNull :: "world \<Rightarrow> state \<Rightarrow> runner \<Rightarrow> bool \<Rightarrow> runner \<times> nashError option \<times> state" where
  "redirectNull w st cmd toStdout =
     (case openFile w ''/dev/null'' False st of
        (Inl e, st1) \<Rightarrow> (cmd, Some e, st1)
      | (Inr file, st1) \<Rightarrow>
          (if toStdout then cmd\<lparr>runStdout := file\<rparr> else cmd\<lparr>runStderr := file\<rparr>,
           None, st1))"

definition buildRedirect :: "world \<Rightarrow> state \<Rightarrow> runner \<Rightarrow> redirect
                              \<Rightarrow> runner \<times> nashError option \<times> state" where
  "buildRedirect w st cmd redirDecl =
     (if LeftFD redirDecl > 2 \<or> LeftFD redirDecl < RedirMapSupress
      then (cmd, Some (NewError (''Invalid file descriptor redirection: fd=''
                                 @ Itoa (LeftFD redirDecl))), st)
      else if RightFD redirDecl > 2 \<or> RightFD redirDecl < RedirMapSupress
      then (cmd, Some (NewError (''Invalid file descriptor redirection: fd=''
                                 @ Itoa (RightFD redirDecl))), st)
      else if LeftFD redirDecl = 0
      then (cmd, Some (NewError ''Does not support stdin redirection yet''), st)
      else if LeftFD redirDecl = 1
      then (if RightFD redirDecl = 0
            then (cmd, Some (NewError ''Invalid redirect mapping: 1 -> 0''), st)
            else if RightFD redirDecl = 1 then (cmd, None, st)
            else if RightFD redirDecl = 2 then (cmd\<lparr>runStdout := runStderr cmd\<rparr>, None, st)
            else if RightFD redirDecl = RedirMapNoValue then redirectTo w st cmd redirDecl True
            else redirectNull w st cmd True)
      else if LeftFD redirDecl = 2
      then (if RightFD redirDecl = 0
            then (cmd, Some (NewError ''Invalid redirect mapping: 2 -> 1''), st)
            else if RightFD redirDecl = 1 then (cmd\<lparr>runStderr := runStdout cmd\<rparr>, None, st)
            else if RightFD redirDecl = 2 then (cmd, None, st)
            else if RightFD redirDecl = RedirMapNoValue then redirectTo w st cmd redirDecl False
            else redirectNull w st cmd False)
      else if LeftFD redirDecl = RedirMapNoValue then redirectTo w st cmd redirDecl True
      else (cmd, None, st))"

fun setRedirects :: "world \<Rightarrow> state \<Rightarrow> runner \<Rightarrow> redirect list \<Rightarrow> runner \<times> nashError option \<times> state" where
  "setRedirects w st cmd [] = (cmd, None, st)"
| "setRedirects w st cmd (r # redirDecls) =
     (case buildRedirect w st cmd r of
        (cmd1, Some e, st1) \<Rightarrow> (cmd1, Some e, st1)
      | (cmd1, None, st1) \<Rightarrow> setRedirects w st1 cmd1 redirDecls)"

section \<open>Commands and pipelines\<close>

definition ESuccess :: int where
  "ESuccess = 0"

definition ENotFound :: int where
  "ENotFound = 127"

definition ENotStarted :: int where
  "ENotStarted = 255"

text \<open>
  Modelled from the spec: \<open>getErrStatus\<close> is not in the file. "The exit code for a failed
  stage is derived from the runner's error (if it carries one), else the pre-assigned
  sentinel."
\<close>

definition getErrStatus :: "nashError \<Rightarrow> string \<Rightarrow> string" where
  "getErrStatus err def = (case exitStatus err of Some c \<Rightarrow> Itoa c | None \<Rightarrow> def)"

text \<open>A function used as the runner of a command, before any setter is called on it.\<close>

definition fnRunner :: "fnval \<Rightarrow> runner" where
  "fnRunner f = \<lparr>kind = FnRunner f, runArgs = [], runEnviron = [], runStdin = NoStream,
                 runStdout = NoStream, runStderr = NoStream\<rparr>"

text \<open>
  \<open>getCommand\<close> returns the runner or the error, the ignore flag, and the command node,
  whose arguments it extends in place (\<open>c.SetArgs\<close>) when a bound function declares more
  parameters than the command has arguments.
\<close>

definition tooMuchArguments :: "world \<Rightarrow> fnval \<Rightarrow> command \<Rightarrow> nashError" where
  "tooMuchArguments w f c =
     NewError (''Too much arguments for function '' @ [CHR 0x27] @ fName f @ [CHR 0x27]
               @ ''. It expects '' @ Itoa (int (length (ArgNames f)))
               @ '' args, but given '' @ Itoa (int (length (Args c)))
               @ ''. Arguments: '' @ fmtArgs w (Args c))"

definition fillArgs :: "command \<Rightarrow> nat \<Rightarrow> command" where
  "fillArgs c n =
     CommandNode (cName c) (Args c @ replicate (n - length (Args c)) (StringExpr [] True))
       (Redirects c)"

definition getCommand :: "world \<Rightarrow> state \<Rightarrow> command \<Rightarrow> (nashError + runner) \<times> bool \<times> command" where
  "getCommand w st c =
     (let ignoreError = (length (cName c) > 1 \<and> hd (cName c) = CHR ''-'');
          cmdName = (if ignoreError then tl (cName c) else cName c)
      in if cmdName = [] then (Inl (NewError ''Empty command name...''), False, c)
         else (case NewCmd w cmdName st of
                 Inr cmd \<Rightarrow> (Inr cmd, ignoreError, c)
               | Inl err \<Rightarrow>
                   if NotFound err
                   then (case Getbindfn cmdName (shl st) of
                           Some f \<Rightarrow>
                             if length (Args c) > length (ArgNames f)
                             then (Inl (tooMuchArguments w f c), ignoreError, c)
                             else (Inr (fnRunner f), ignoreError, fillArgs c (length (ArgNames f)))
                         | None \<Rightarrow> (Inl err, ignoreError, c))
                   else (Inl err, ignoreError, c)))"

text \<open>
  \<open>executeCommand\<close>. The label \<open>cmdError\<close> sets \<open>status\<close> from the error and returns
  the error, wrapped as an error to ignore when the command name began with a minus. The
  result is the error, the state, and the command node as \<open>getCommand\<close> left it.
\<close>

definition cmdError :: "state \<Rightarrow> bool \<Rightarrow> nashError \<Rightarrow> command \<Rightarrow> nashError option \<times> state \<times> command" where
  "cmdError st ignoreError err c =
     (Some (if ignoreError then newErrIgnore (Error err) else err),
      st\<lparr>shl := Setvar ''status'' (StrObj (getErrStatus err ''127'')) (shl st)\<rparr>, c)"

definition executeCommand :: "world \<Rightarrow> state \<Rightarrow> command \<Rightarrow> nashError option \<times> state \<times> command" where
  "executeCommand w st c =
     (case getCommand w st c of
        (Inl err, ignoreError, c1) \<Rightarrow> cmdError st ignoreError err c1
      | (Inr cmd, ignoreError, c1) \<Rightarrow>
          (case runSetArgs w (cmd\<lparr>runEnviron := buildenv w (Environ (shl st))\<rparr>) (Args c1) st of
             Inl err \<Rightarrow> cmdError st ignoreError err c1
           | Inr cmd1 \<Rightarrow>
               (case setRedirects w st
                       (cmd1\<lparr>runStdin := stdin (self (shl st)),
                              runStdout := stdout (self (shl st)),
                              runStderr := stderr (self (shl st))\<rparr>) (Redirects c1) of
                  (cmd2, Some err, st1) \<Rightarrow> cmdError st1 ignoreError err c1
                | (cmd2, None, st1) \<Rightarrow>
                    (case runStart w cmd2 st1 of
                       (Some err, st2) \<Rightarrow> cmdError st2 ignoreError err c1
                     | (None, st2) \<Rightarrow>
                         (case runWait w cmd2 st2 of
                            (Some err, st3) \<Rightarrow> cmdError st3 ignoreError err c1
                          | (None, st3) \<Rightarrow>
                              (None, st3\<lparr>shl := Setvar ''status'' (StrObj ''0'') (shl st3)\<rparr>,
                               c1))))))"

text \<open>
  \<open>executePipe\<close>. Its local variables are a record; each loop runs its body over the
  indices and leaves at the first body that jumps to \<open>pipeError\<close>, with \<open>errIndex\<close>, the
  error and the variables as they are at the jump. \<open>cmds\<close> holds the runners built so far
  (\<open>cmds[i] = cmd\<close> fills the slice in order).
\<close>

record pipeVars =
  cmds :: "runner list"
  errs :: "string list"
  igns :: "bool list"
  cods :: "string list"
  nodeCommands :: "command list"
  pst :: state

primrec forEach :: "(nat \<Rightarrow> 'v \<Rightarrow> 'f + 'v) \<Rightarrow> nat list \<Rightarrow> 'v \<Rightarrow> 'f + 'v" where
  "forEach body [] v = Inr v"
| "forEach body (i # rest) v =
     (case body i v of Inl f \<Rightarrow> Inl f | Inr v1 \<Rightarrow> forEach body rest v1)"

definition createStep :: "world \<Rightarrow> string list \<Rightarrow> nat \<Rightarrow> nat \<Rightarrow> pipeVars
                           \<Rightarrow> (nat \<times> nashError \<times> pipeVars) + pipeVars" where
  "createStep w envVars lastIdx i pv =
     (case getCommand w (pst pv) (nodeCommands pv ! i) of
        (r, ignoreFlag, nodeCmd) \<Rightarrow>
          (let pv1 = pv\<lparr>igns := (igns pv)[i := ignoreFlag],
                         nodeCommands := (nodeCommands pv)[i := nodeCmd]\<rparr>
           in case r of
                Inl err \<Rightarrow> Inl (i, err, pv1\<lparr>cods := (cods pv1)[i := Itoa ENotFound]\<rparr>)
              | Inr cmd \<Rightarrow>
                  (case runSetArgs w (cmd\<lparr>runEnviron := envVars\<rparr>) (Args nodeCmd) (pst pv) of
                     Inl err \<Rightarrow> Inl (i, err, pv1)
                   | Inr cmd1 \<Rightarrow>
                       (let cmd2 = cmd1\<lparr>runStdin := stdin (self (shl (pst pv))),
                                         runStderr := stderr (self (shl (pst pv)))\<rparr>
                        in if i < lastIdx
                           then (case setRedirects w (pst pv) cmd2 (Redirects nodeCmd) of
                                   (cmd3, Some err, st1) \<Rightarrow> Inl (i, err, pv1\<lparr>pst := st1\<rparr>)
                                 | (cmd3, None, st1) \<Rightarrow>
                                     Inr (pv1\<lparr>cmds := cmds pv1 @ [cmd3], pst := st1\<rparr>))
                           else Inr (pv1\<lparr>cmds := cmds pv1 @ [cmd2]\<rparr>)))))"

definition wireStep :: "world \<Rightarrow> nat \<Rightarrow> pipeVars \<Rightarrow> (nat \<times> nashError \<times> pipeVars) + pipeVars" where
  "wireStep w i pv =
     (case runStdoutPipe w ((cmds pv ! i)\<lparr>runStderr := stderr (self (shl (pst pv)))\<rparr>) (pst pv) of
        (Inl err, st1) \<Rightarrow> Inl (i, err, pv\<lparr>pst := st1\<rparr>)
      | (Inr (pipeReader, cmd), st1) \<Rightarrow>
          Inr (pv\<lparr>cmds := (cmds pv)[i := cmd,
                                    Suc i := (cmds pv ! Suc i)\<lparr>runStdin := pipeReader\<rparr>],
                  pst := st1\<rparr>))"

definition startStep :: "world \<Rightarrow> nat \<Rightarrow> pipeVars \<Rightarrow> (nat \<times> nashError \<times> pipeVars) + pipeVars" where
  "startStep w i pv =
     (case runStart w (cmds pv ! i) (pst pv) of
        (Some err, st1) \<Rightarrow> Inl (i, err, pv\<lparr>pst := st1\<rparr>)
      | (None, st1) \<Rightarrow>
          Inr (pv\<lparr>errs := (errs pv)[i := ''success''], cods := (cods pv)[i := ''0''],
                  pst := st1\<rparr>))"

definition waitStep :: "world \<Rightarrow> nat \<Rightarrow> pipeVars \<Rightarrow> (nat \<times> nashError \<times> pipeVars) + pipeVars" where
  "waitStep w i pv =
     (case runWait w (cmds pv ! i) (pst pv) of
        (Some err, st1) \<Rightarrow> Inl (i, err, pv\<lparr>pst := st1\<rparr>)
      | (None, st1) \<Rightarrow>
          Inr (pv\<lparr>errs := (errs pv)[i := ''success''], cods := (cods pv)[i := ''0''],
                  pst := st1\<rparr>))"

text \<open>The last command gets the shell's stdout and its own redirections.\<close>

definition lastStep :: "world \<Rightarrow> nat \<Rightarrow> pipeVars \<Rightarrow> (nat \<times> nashError \<times> pipeVars) + pipeVars" where
  "lastStep w lastIdx pv =
     (case setRedirects w (pst pv)
             ((cmds pv ! lastIdx)\<lparr>runStdout := stdout (self (shl (pst pv))),
                                   runStderr := stderr (self (shl (pst pv)))\<rparr>)
             (Redirects (nodeCommands pv ! lastIdx)) of
        (cmd, Some err, st1) \<Rightarrow> Inl (lastIdx, err, pv\<lparr>pst := st1\<rparr>)
      | (cmd, None, st1) \<Rightarrow> Inr (pv\<lparr>cmds := (cmds pv)[lastIdx := cmd], pst := st1\<rparr>))"

text \<open>The variables at the start of the first loop.\<close>

definition pipeStart :: "state \<Rightarrow> command list \<Rightarrow> pipeVars" where
  "pipeStart st cs =
     \<lparr>cmds = [], errs = replicate (length cs) ''not started'',
      igns = replicate (length cs) False, cods = replicate (length cs) (Itoa ENotStarted),
      nodeCommands = cs, pst = st\<rparr>"

text \<open>
  The body of \<open>executePipe\<close> down to \<open>sh.Setvar("status", NewStrObj("0"))\<close>: \<open>Inr\<close> when
  control falls through all five steps, \<open>Inl\<close> at a jump to \<open>pipeError\<close>.
\<close>

definition pipeRun :: "world \<Rightarrow> state \<Rightarrow> command list \<Rightarrow> (nat \<times> nashError \<times> pipeVars) + pipeVars" where
  "pipeRun w st cs =
     (case forEach (createStep w (buildenv w (Environ (shl st))) (length cs - 1))
             [0..<length cs] (pipeStart st cs) of
        Inl f \<Rightarrow> Inl f
      | Inr pv1 \<Rightarrow>
          (case forEach (wireStep w) [0..<length cs - 1]
                  (pv1\<lparr>cmds := (cmds pv1)[0 := (cmds pv1 ! 0)\<lparr>runStdin := stdin (self (shl (pst pv1)))\<rparr>]\<rparr>) of
             Inl f \<Rightarrow> Inl f
           | Inr pv2 \<Rightarrow>
               (case lastStep w (length cs - 1) pv2 of
                  Inl f \<Rightarrow> Inl f
                | Inr pv3 \<Rightarrow>
                    (case forEach (startStep w) [0..<length cs] pv3 of
                       Inl f \<Rightarrow> Inl f
                     | Inr pv4 \<Rightarrow> forEach (waitStep w) [0..<length cs] pv4))))"

text \<open>
  The label \<open>pipeError\<close>. \<open>uniqCodes\<close> has one key when the codes, without repetitions, are
  one; \<open>uniqCode\<close> is then the last code the loop has seen.
\<close>

definition pipeErrs :: "nat \<Rightarrow> nashError \<Rightarrow> pipeVars \<Rightarrow> string list" where
  "pipeErrs errIndex err pv =
     (errs pv)[errIndex := (if igns pv ! errIndex then ''none'' else Error err)]"

definition pipeCods :: "nat \<Rightarrow> nashError \<Rightarrow> pipeVars \<Rightarrow> string list" where
  "pipeCods errIndex err pv =
     (cods pv)[errIndex := getErrStatus err (cods pv ! errIndex)]"

definition pipeError :: "nat \<Rightarrow> nashError \<Rightarrow> pipeVars \<Rightarrow> nashError option \<times> state \<times> command list" where
  "pipeError errIndex err pv =
     (let errs1 = pipeErrs errIndex err pv;
          cods1 = pipeCods errIndex err pv;
          err1 = NewError (Join errs1 ''|'');
          status = (if length (remdups cods1) = 1 then last cods1 else Join cods1 ''|'')
      in (if igns pv ! errIndex then None else Some err1,
          (pst pv)\<lparr>shl := Setvar ''status'' (StrObj status) (shl (pst pv))\<rparr>,
          nodeCommands pv))"

definition executePipe :: "world \<Rightarrow> state \<Rightarrow> command list \<Rightarrow> nashError option \<times> state \<times> command list" where
  "executePipe w st cs =
     (if length cs < 2 then (Some (NewError ''Pipe requires at least two commands.''), st, cs)
      else (case pipeRun w st cs of
              Inr pv \<Rightarrow>
                (None, (pst pv)\<lparr>shl := Setvar ''status'' (StrObj ''0'') (shl (pst pv))\<rparr>,
                 nodeCommands pv)
            | Inl (errIndex, err, pv) \<Rightarrow> pipeError errIndex err pv))"





section \<open>Statements\<close>

text \<open>
  A statement may run a block, and a block runs statements. The functions below take the
  callee \<open>executeTree\<close> as the parameter \<open>exT\<close>; the recursion is closed at the end of the
  section, on a bound \<open>k\<close> that counts the nesting of blocks and the rounds of an infinite
  loop. The result \<open>None\<close> says that the bound was reached, that is, that the evaluation
  has not returned by then. Every function returns, besides the values the Go function
  returns, the state and the node it was given, which \<open>getCommand\<close> may have changed.
\<close>

type_synonym treeResult = "(obj option \<times> nashError option \<times> state \<times> tree option) option"

type_synonym nodeResult = "(obj option \<times> nashError option \<times> state \<times> node) option"

type_synonym treeExec = "tree option \<Rightarrow> bool \<Rightarrow> state \<Rightarrow> treeResult"

definition executeReturn :: "world \<Rightarrow> state \<Rightarrow> expr option \<Rightarrow> obj option \<times> nashError option" where
  "executeReturn w st ret =
     (case ret of
        None \<Rightarrow> (None, Some newErrStopWalking)
      | Some e \<Rightarrow>
          (case evalExpr w (shl st) e of
             Inl err \<Rightarrow> (None, Some err)
           | Inr v \<Rightarrow> (Some v, Some newErrStopWalking)))"

definition executeSetenv :: "world \<Rightarrow> state \<Rightarrow> string \<Rightarrow> nashError option \<times> state" where
  "executeSetenv w st varName =
     (case GetVar varName (shl st) of
        None \<Rightarrow> (Some (NewError (''Variable '' @ [CHR 0x27] @ varName @ [CHR 0x27]
                                 @ '' not set on shell '' @ name (self (shl st)))), st)
      | Some varValue \<Rightarrow>
          (case Setenv w varName varValue (shl st) (osEnv st) of
             (sh1, pe1) \<Rightarrow> (None, st\<lparr>shl := sh1, osEnv := pe1\<rparr>)))"

definition executeAssignment :: "world \<Rightarrow> state \<Rightarrow> string \<Rightarrow> expr \<Rightarrow> nashError option \<times> state" where
  "executeAssignment w st ident e =
     (case evalExpr w (shl st) e of
        Inl err \<Rightarrow> (Some err, st)
      | Inr v \<Rightarrow> (None, st\<lparr>shl := Setvar ident v (shl st)\<rparr>))"

text \<open>\<open>executeFnInv\<close>: the function is looked up, then run as any runner is.\<close>

definition Fn_of :: "obj \<Rightarrow> fnval option" where
  "Fn_of v = (case v of FnObj f \<Rightarrow> Some f | _ \<Rightarrow> None)"

definition lookupFn :: "world \<Rightarrow> state \<Rightarrow> string \<Rightarrow> nashError + fnval" where
  "lookupFn w st fnName =
     (if length fnName > 1 \<and> hd fnName = CHR ''$''
      then (case evalVariable w (shl st) (VarExpr (VarName (hd fnName) (tl fnName))) of
              Inl err \<Rightarrow> Inl err
            | Inr v \<Rightarrow>
                (case Fn_of v of
                   None \<Rightarrow> Inl (NewError (''Variable '' @ [CHR 0x27] @ fnName @ [CHR 0x27]
                                          @ '' isnt a function.''))
                 | Some f \<Rightarrow> Inr f))
      else (case GetBuiltin fnName (shl st) of
              Some f \<Rightarrow> Inr f
            | None \<Rightarrow>
                (case GetFn fnName (shl st) of
                   Some f \<Rightarrow> Inr f
                 | None \<Rightarrow> Inl (NewError (''no such function '' @ [CHR 0x27] @ fnName
                                          @ [CHR 0x27])))))"

definition executeFnInv :: "world \<Rightarrow> state \<Rightarrow> string \<Rightarrow> expr list \<Rightarrow> (nashError + obj option) \<times> state" where
  "executeFnInv w st fnName args =
     (case lookupFn w st fnName of
        Inl err \<Rightarrow> (Inl err, st)
      | Inr f \<Rightarrow>
          (case runSetArgs w (fnRunner f) args st of
             Inl err \<Rightarrow> (Inl err, st)
           | Inr r \<Rightarrow>
               (case runStart w r st of
                  (Some err, st1) \<Rightarrow> (Inl err, st1)
                | (None, st1) \<Rightarrow>
                    (case runWait w r st1 of
                       (Some err, st2) \<Rightarrow> (Inl err, st2)
                     | (None, st2) \<Rightarrow> (Inr (runResults w r st2), st2)))))"

definition executeFnDecl :: "world \<Rightarrow> state \<Rightarrow> string \<Rightarrow> string list \<Rightarrow> tree option
                              \<Rightarrow> nashError option \<times> state" where
  "executeFnDecl w st nm args tr =
     (case NewUserFn w nm st of
        Some err \<Rightarrow> (Some err, st)
      | None \<Rightarrow>
          (let f = Fn nm args tr;
               s = self (shl st);
               fnName = (if nm = [] then ''lambda '' @ Itoa (int (lambdas s)) else nm);
               s1 = (if nm = [] then s\<lparr>lambdas := Suc (lambdas s)\<rparr> else s);
               s2 = s1\<lparr>fns := (fns s1)(fnName \<mapsto> f)\<rparr>
           in (None, st\<lparr>shl := Setvar fnName (FnObj f) (Shell s2 (parent (shl st)))\<rparr>)))"

definition executeBindFn :: "state \<Rightarrow> string \<Rightarrow> string \<Rightarrow> nashError option \<times> state" where
  "executeBindFn st nm cmdName =
     (case GetFn nm (shl st) of
        Some f \<Rightarrow> (None, st\<lparr>shl := Setbindfn cmdName f (shl st)\<rparr>)
      | None \<Rightarrow> (Some (NewError (''No such function '' @ [CHR 0x27] @ nm @ [CHR 0x27])), st))"

definition executeDump :: "world \<Rightarrow> state \<Rightarrow> expr option \<Rightarrow> nashError option \<times> state" where
  "executeDump w st fnameArg =
     (case fnameArg of
        None \<Rightarrow> (None, dump w (stdout (self (shl st))) st)
      | Some e \<Rightarrow>
          (case evalExpr w (shl st) e of
             Inl err \<Rightarrow> (Some err, st)
           | Inr v \<Rightarrow>
               if Type v \<noteq> StringType
               then (Some (NewError (''dump does not support argument of type ''
                                     @ fmtType w (Type v))), st)
               else (case openFile w (Str v) True st of
                       (Inl err, st1) \<Rightarrow> (Some err, st1)
                     | (Inr file, st1) \<Rightarrow> (None, dump w file st1))))"

text \<open>\<open>evalIfArguments\<close>, \<open>executeIfEqual\<close>, \<open>executeIfNotEqual\<close> and \<open>executeIf\<close>.\<close>

definition evalIfArguments :: "world \<Rightarrow> state \<Rightarrow> expr \<Rightarrow> expr \<Rightarrow> nashError + string \<times> string" where
  "evalIfArguments w st lvalue rvalue =
     (case evalExpr w (shl st) lvalue of
        Inl err \<Rightarrow> Inl err
      | Inr lobj \<Rightarrow>
          (case evalExpr w (shl st) rvalue of
             Inl err \<Rightarrow> Inl err
           | Inr robj \<Rightarrow>
               if Type lobj \<noteq> StringType
               then Inl (NewError (''lvalue is not comparable: ('' @ fmtObj w lobj @ '') -> ''
                                   @ fmtType w (Type lobj) @ ''.''))
               else if Type robj \<noteq> StringType
               then Inl (NewError ''rvalue is not comparable'')
               else Inr (Str lobj, Str robj)))"

definition executeIfBranch :: "treeExec \<Rightarrow> world \<Rightarrow> state \<Rightarrow> bool \<Rightarrow> expr \<Rightarrow> string \<Rightarrow> expr
                                \<Rightarrow> tree option \<Rightarrow> tree option \<Rightarrow> nodeResult" where
  "executeIfBranch exT w st wantEqual lvalue op rvalue ifTree elseTree =
     (case evalIfArguments w st lvalue rvalue of
        Inl err \<Rightarrow> Some (None, Some err, st, IfNode lvalue op rvalue ifTree elseTree)
      | Inr (lstr, rstr) \<Rightarrow>
          if (lstr = rstr) = wantEqual
          then (case exT ifTree False st of
                  None \<Rightarrow> None
                | Some (v, err, st1, tr1) \<Rightarrow>
                    Some (v, err, st1, IfNode lvalue op rvalue tr1 elseTree))
          else if elseTree \<noteq> None
          then (case exT elseTree False st of
                  None \<Rightarrow> None
                | Some (v, err, st1, tr1) \<Rightarrow>
                    Some (v, err, st1, IfNode lvalue op rvalue ifTree tr1))
          else Some (None, None, st, IfNode lvalue op rvalue ifTree elseTree))"

definition executeIf :: "treeExec \<Rightarrow> world \<Rightarrow> state \<Rightarrow> expr \<Rightarrow> string \<Rightarrow> expr
                          \<Rightarrow> tree option \<Rightarrow> tree option \<Rightarrow> nodeResult" where
  "executeIf exT w st lvalue op rvalue ifTree elseTree =
     (if op = ''=='' then executeIfBranch exT w st True lvalue op rvalue ifTree elseTree
      else if op = ''!='' then executeIfBranch exT w st False lvalue op rvalue ifTree elseTree
      else Some (None, Some (NewError (''Invalid operation '' @ [CHR 0x27] @ op @ [CHR 0x27]
                                       @ ''.'')), st,
                 IfNode lvalue op rvalue ifTree elseTree))"

text \<open>
  \<open>utf8.DecodeRuneInString\<close> on a non-empty string: the rune and its width in bytes. A byte
  sequence that is not valid UTF-8 decodes to \<open>RuneError\<close> with width 1.
\<close>

definition RuneError :: nat where
  "RuneError = 0xFFFD"

definition contByte :: "nat \<Rightarrow> nat \<Rightarrow> char \<Rightarrow> bool" where
  "contByte lo hi c = (lo \<le> (of_char c :: nat) \<and> (of_char c :: nat) \<le> hi)"

definition decodeRune :: "string \<Rightarrow> nat \<times> nat" where
  "decodeRune s =
     (case s of
        [] \<Rightarrow> (RuneError, 1)
      | b0 # r \<Rightarrow>
          (let x = (of_char b0 :: nat) in
           if x < 0x80 then (x, 1)
           else if 0xC2 \<le> x \<and> x \<le> 0xDF
           then (case r of
                   b1 # r1 \<Rightarrow>
                     if contByte 0x80 0xBF b1
                     then ((x mod 32) * 64 + (of_char b1 :: nat) mod 64, 2)
                     else (RuneError, 1)
                 | [] \<Rightarrow> (RuneError, 1))
           else if 0xE0 \<le> x \<and> x \<le> 0xEF
           then (case r of
                   b1 # b2 # r2 \<Rightarrow>
                     if contByte (if x = 0xE0 then 0xA0 else 0x80)
                                 (if x = 0xED then 0x9F else 0xBF) b1
                        \<and> contByte 0x80 0xBF b2
                     then (((x mod 16) * 64 + (of_char b1 :: nat) mod 64) * 64
                           + (of_char b2 :: nat) mod 64, 3)
                     else (RuneError, 1)
                 | _ \<Rightarrow> (RuneError, 1))
           else if 0xF0 \<le> x \<and> x \<le> 0xF4
           then (case r of
                   b1 # b2 # b3 # r3 \<Rightarrow>
                     if contByte (if x = 0xF0 then 0x90 else 0x80)
                                 (if x = 0xF4 then 0x8F else 0xBF) b1
                        \<and> contByte 0x80 0xBF b2 \<and> contByte 0x80 0xBF b3
                     then ((((x mod 8) * 64 + (of_char b1 :: nat) mod 64) * 64
                            + (of_char b2 :: nat) mod 64) * 64
                           + (of_char b3 :: nat) mod 64, 4)
                     else (RuneError, 1)
                 | _ \<Rightarrow> (RuneError, 1))
           else (RuneError, 1)))"

text \<open>
  \<open>strings.FieldsFunc\<close>: the maximal runs of runes that \<open>f\<close> rejects. \<open>cur\<close> is the field
  that is open (\<open>start >= 0\<close>), if any. The bound is the number of bytes left, which every
  rune lowers by its width.
\<close>

fun fieldsLoop :: "nat \<Rightarrow> (nat \<Rightarrow> bool) \<Rightarrow> string \<Rightarrow> string option \<Rightarrow> string list" where
  "fieldsLoop 0 f s cur = (case cur of Some fld \<Rightarrow> [fld] | None \<Rightarrow> [])"
| "fieldsLoop (Suc n) f s cur =
     (if s = [] then (case cur of Some fld \<Rightarrow> [fld] | None \<Rightarrow> [])
      else (case decodeRune s of
              (r, wd) \<Rightarrow>
                if f r
                then (case cur of
                        Some fld \<Rightarrow> fld # fieldsLoop n f (drop wd s) None
                      | None \<Rightarrow> fieldsLoop n f (drop wd s) None)
                else fieldsLoop n f (drop wd s)
                       (Some ((case cur of Some fld \<Rightarrow> fld | None \<Rightarrow> []) @ take wd s))))"

definition FieldsFunc :: "string \<Rightarrow> (nat \<Rightarrow> bool) \<Rightarrow> string list" where
  "FieldsFunc s f = fieldsLoop (length s) f s None"

text \<open>
  \<open>executeExecAssign\<close>. \<open>varOut\<close> is a new buffer, at the next free address; the deferred
  \<open>SetStdout(bkStdout)\<close> runs on every way out. The closure given to \<open>FieldsFunc\<close> is
  \<open>isDelim\<close>: a rune is a delimiter when it equals the first byte of a non-empty string of
  the list.
\<close>

definition SetStdout :: "stream \<Rightarrow> shell \<Rightarrow> shell" where
  "SetStdout out sh = Shell ((self sh)\<lparr>stdout := out\<rparr>) (parent sh)"

definition isDelim :: "obj list \<Rightarrow> nat \<Rightarrow> bool" where
  "isDelim ifs r =
     list_ex (\<lambda>delim. Type delim = StringType \<and> length (Str delim) > 0
                      \<and> (of_char (hd (Str delim)) :: nat) = r) ifs"

definition bindOutput :: "state \<Rightarrow> string \<Rightarrow> string \<Rightarrow> state" where
  "bindOutput st ident outStr =
     (case GetVar ''IFS'' (shl st) of
        Some ifs \<Rightarrow>
          if Type ifs = ListType \<and> length (List ifs) > 0
          then st\<lparr>shl := Setvar ident
                            (ListObj (map StrObj (FieldsFunc outStr (isDelim (List ifs)))))
                            (shl st)\<rparr>
          else st\<lparr>shl := Setvar ident (StrObj outStr) (shl st)\<rparr>
      | None \<Rightarrow> st\<lparr>shl := Setvar ident (StrObj outStr) (shl st)\<rparr>)"

definition restoreStdout :: "stream \<Rightarrow> state \<Rightarrow> state" where
  "restoreStdout bkStdout st = st\<lparr>shl := SetStdout bkStdout (shl st)\<rparr>"

definition executeExecAssign :: "world \<Rightarrow> state \<Rightarrow> string \<Rightarrow> node \<Rightarrow> nashError option \<times> state \<times> node" where
  "executeExecAssign w st ident assign =
     (let bkStdout = stdout (self (shl st));
          varOut = nextBuffer st;
          st0 = st\<lparr>buffers := (buffers st)(varOut := []), nextBuffer := Suc varOut,
                   shl := SetStdout (BufferAt varOut) (shl st)\<rparr>
      in case assign of
           CommandStmt c \<Rightarrow>
             (case executeCommand w st0 c of
                (err, st1, c1) \<Rightarrow>
                  (err, restoreStdout bkStdout (bindOutput st1 ident (buffers st1 varOut)),
                   ExecAssignNode ident (CommandStmt c1)))
         | PipeNode cs \<Rightarrow>
             (case executePipe w st0 cs of
                (err, st1, cs1) \<Rightarrow>
                  (err, restoreStdout bkStdout (bindOutput st1 ident (buffers st1 varOut)),
                   ExecAssignNode ident (PipeNode cs1)))
         | FnInvNode fnName args \<Rightarrow>
             (case executeFnInv w st0 fnName args of
                (Inl err, st1) \<Rightarrow> (Some err, restoreStdout bkStdout st1, ExecAssignNode ident assign)
              | (Inr None, st1) \<Rightarrow>
                  (Some (NewError (''Invalid assignment from function that does not return values: ''
                                   @ fmtNode w assign)),
                   restoreStdout bkStdout st1, ExecAssignNode ident assign)
              | (Inr (Some fnValues), st1) \<Rightarrow>
                  (None, restoreStdout bkStdout (st1\<lparr>shl := Setvar ident fnValues (shl st1)\<rparr>),
                   ExecAssignNode ident assign))
         | _ \<Rightarrow>
             (Some (NewError (''Unexpected node in assignment: '' @ fmtNode w assign)),
              restoreStdout bkStdout (bindOutput st0 ident (buffers st0 varOut)),
              ExecAssignNode ident assign))"

text \<open>
  \<open>Exec\<close>, \<open>ExecFile\<close> and \<open>executeImport\<close>. \<open>readFile\<close> is \<open>ioutil.ReadFile\<close>,
  \<open>parse\<close> is the parser, \<open>osStat\<close> is \<open>os.Stat\<close> (\<open>None\<close> when it fails, else whether the
  path is a directory), \<open>pathDir\<close> is \<open>path.Dir\<close>.
\<close>

definition Exec :: "treeExec \<Rightarrow> world \<Rightarrow> state \<Rightarrow> string \<Rightarrow> string \<Rightarrow> (nashError option \<times> state) option" where
  "Exec exT w st path content =
     (case parse w path content of
        Inl err \<Rightarrow> Some (Some err, st)
      | Inr tr \<Rightarrow>
          (case exT (Some tr) True st of
             None \<Rightarrow> None
           | Some (v, err, st1, tr1) \<Rightarrow> Some (err, st1)))"

definition setCurrentFile :: "string \<Rightarrow> state \<Rightarrow> state" where
  "setCurrentFile path st =
     st\<lparr>shl := Shell ((self (shl st))\<lparr>currentFile := path\<rparr>) (parent (shl st))\<rparr>"

definition ExecFile :: "treeExec \<Rightarrow> world \<Rightarrow> state \<Rightarrow> string \<Rightarrow> (nashError option \<times> state) option" where
  "ExecFile exT w st path =
     (case readFile w path st of
        Inl err \<Rightarrow> Some (Some err, st)
      | Inr content \<Rightarrow>
          (case Exec exT w (setCurrentFile path st) path content of
             None \<Rightarrow> None
           | Some (err, st1) \<Rightarrow>
               Some (err, setCurrentFile (currentFile (self (shl st))) st1)))"

definition importTries :: "world \<Rightarrow> string \<Rightarrow> string \<Rightarrow> string \<Rightarrow> string list" where
  "importTries w fname curFile dotDir =
     (let hasExt = (length fname > 3 \<and> drop (length fname - 3) fname = ''.sh'')
      in [fname]
         @ (if hasExt then [] else [fname @ ''.sh''])
         @ (if curFile \<noteq> []
            then [pathDir w curFile @ ''/'' @ fname]
                 @ (if hasExt then [] else [pathDir w curFile @ ''/'' @ fname @ ''.sh''])
            else [])
         @ [dotDir @ ''/lib/'' @ fname]
         @ (if hasExt then [] else [dotDir @ ''/lib/'' @ fname @ ''.sh'']))"

text \<open>The loop over the candidates: the first one that \<open>os.Stat\<close> finds and that is no directory.\<close>

fun firstFile :: "world \<Rightarrow> state \<Rightarrow> string list \<Rightarrow> string option" where
  "firstFile w st [] = None"
| "firstFile w st (p # ps) =
     (case osStat w p st of
        None \<Rightarrow> firstFile w st ps
      | Some isDir \<Rightarrow> if \<not> isDir then Some p else firstFile w st ps)"

definition importFailed :: "string \<Rightarrow> string list \<Rightarrow> nashError" where
  "importFailed fname tries =
     NewError (''Failed to import path '' @ [CHR 0x27] @ fname @ [CHR 0x27]
               @ ''. The locations below have been tried:'' @ [CHR 0x0A, CHR '' '', CHR 0x22]
               @ Join tries [CHR 0x22, CHR '','', CHR '' '', CHR 0x22] @ [CHR 0x22])"

definition executeImport :: "treeExec \<Rightarrow> world \<Rightarrow> state \<Rightarrow> expr \<Rightarrow> (nashError option \<times> state) option" where
  "executeImport exT w st arg =
     (case evalExpr w (shl st) arg of
        Inl err \<Rightarrow> Some (Some err, st)
      | Inr v \<Rightarrow>
          if Type v \<noteq> StringType
          then Some (Some (NewError (''Invalid type on import argument: ''
                                     @ fmtType w (Type v))), st)
          else
            let fname = Str v in
            if length fname > 0 \<and> hd fname = CHR ''/'' then ExecFile exT w st fname
            else (case Getenv ''NASHPATH'' (shl st) of
                    None \<Rightarrow>
                      Some (Some (NewError (''NASHPATH environment variable not set on shell ''
                                            @ name (self (shl st)))), st)
                  | Some nashPath \<Rightarrow>
                      if Type nashPath \<noteq> StringType
                      then Some (Some (NewError ''NASHPATH must be n string''), st)
                      else
                        let tries = importTries w fname (currentFile (self (shl st)))
                                      (String w nashPath)
                        in (case firstFile w st tries of
                              Some path \<Rightarrow> ExecFile exT w st path
                            | None \<Rightarrow> Some (Some (importFailed fname tries), st))))"


definition intrErr :: "nashError option \<Rightarrow> bool" where
  "intrErr err = (case err of Some e \<Rightarrow> Interrupted e | None \<Rightarrow> False)"

definition loopInterrupted :: "nashError option \<Rightarrow> nashError" where
  "loopInterrupted err =
     (case err of Some e \<Rightarrow> newErrInterrupted (Error e)
                | None \<Rightarrow> newErrInterrupted ''loop interrupted'')"

primrec executeInfLoop :: "nat \<Rightarrow> treeExec \<Rightarrow> tree option \<Rightarrow> state
                             \<Rightarrow> (nashError option \<times> state \<times> tree option) option" where
  "executeInfLoop 0 exT tr st = None"
| "executeInfLoop (Suc k) exT tr st =
     (case exT tr True st of
        None \<Rightarrow> None
      | Some (v, err, st1, tr1) \<Rightarrow>
          if intrErr err then Some (err, st1, tr1)
          else if getIntr (shl st1)
          then Some (Some (loopInterrupted err), st1\<lparr>shl := setIntr False (shl st1)\<rparr>, tr1)
          else if err \<noteq> None then Some (err, st1, tr1)
          else executeInfLoop k exT tr1 st1)"

primrec forRange :: "treeExec \<Rightarrow> string \<Rightarrow> obj list \<Rightarrow> tree option \<Rightarrow> state
                       \<Rightarrow> (nashError option \<times> state \<times> tree option) option" where
  "forRange exT ident [] tr st = Some (None, st, tr)"
| "forRange exT ident (val # rest) tr st =
     (case exT tr True (st\<lparr>shl := Setvar ident val (shl st)\<rparr>) of
        None \<Rightarrow> None
      | Some (v, err, st1, tr1) \<Rightarrow>
          if intrErr err then Some (err, st1, tr1)
          else if getIntr (shl st1)
          then Some (Some (loopInterrupted err), st1\<lparr>shl := setIntr False (shl st1)\<rparr>, tr1)
          else if err \<noteq> None then Some (err, st1, tr1)
          else forRange exT ident rest tr1 st1)"

definition setLooping :: "bool \<Rightarrow> state \<Rightarrow> state" where
  "setLooping b st =
     st\<lparr>shl := Shell ((self (shl st))\<lparr>looping := b\<rparr>) (parent (shl st))\<rparr>"

definition stopLooping :: "(nashError option \<times> state \<times> tree option) option
                             \<Rightarrow> (nashError option \<times> state \<times> tree option) option" where
  "stopLooping r =
     (case r of None \<Rightarrow> None | Some (err, st, tr) \<Rightarrow> Some (err, setLooping False st, tr))"

definition executeFor :: "treeExec \<Rightarrow> nat \<Rightarrow> world \<Rightarrow> state \<Rightarrow> string \<Rightarrow> string \<Rightarrow> tree option
                           \<Rightarrow> (nashError option \<times> state \<times> tree option) option" where
  "executeFor exT k w st ident inVar tr =
     stopLooping
       (if inVar = [] then executeInfLoop k exT tr (setLooping True st)
        else (case evalVariable w (shl (setLooping True st))
                     (VarExpr (VarName (hd inVar) (tl inVar))) of
                Inl err \<Rightarrow> Some (Some err, setLooping True st, tr)
              | Inr v \<Rightarrow>
                  if Type v \<noteq> ListType
                  then Some (Some (NewError (''Invalid variable type in for range: ''
                                             @ fmtType w (Type v))), setLooping True st, tr)
                  else forRange exT ident (List v) tr (setLooping True st)))"

text \<open>
  \<open>executeNode\<close>, \<open>executeTree\<close> and its loop. A node type with no case in the switch is
  \<open>OtherNode\<close>.
\<close>

definition executeNode :: "treeExec \<Rightarrow> nat \<Rightarrow> world \<Rightarrow> node \<Rightarrow> state \<Rightarrow> nodeResult" where
  "executeNode exT k w node st =
     (case node of
        ImportNode arg \<Rightarrow>
          (case executeImport exT w st arg of
             None \<Rightarrow> None | Some (err, st1) \<Rightarrow> Some (None, err, st1, node))
      | CommentNode text \<Rightarrow> Some (None, None, st, node)
      | SetenvNode ident \<Rightarrow>
          (case executeSetenv w st ident of (err, st1) \<Rightarrow> Some (None, err, st1, node))
      | AssignmentNode ident e \<Rightarrow>
          (case executeAssignment w st ident e of (err, st1) \<Rightarrow> Some (None, err, st1, node))
      | ExecAssignNode ident assign \<Rightarrow>
          (case executeExecAssign w st ident assign of
             (err, st1, node1) \<Rightarrow> Some (None, err, st1, node1))
      | CommandStmt c \<Rightarrow>
          (case executeCommand w st c of (err, st1, c1) \<Rightarrow> Some (None, err, st1, CommandStmt c1))
      | PipeNode cs \<Rightarrow>
          (case executePipe w st cs of (err, st1, cs1) \<Rightarrow> Some (None, err, st1, PipeNode cs1))
      | RforkNode arg tr \<Rightarrow>
          (case executeRfork w node st of (err, st1) \<Rightarrow> Some (None, err, st1, node))
      | IfNode lvalue op rvalue ifTree elseTree \<Rightarrow>
          executeIf exT w st lvalue op rvalue ifTree elseTree
      | FnDeclNode nm args tr \<Rightarrow>
          (case executeFnDecl w st nm args tr of (err, st1) \<Rightarrow> Some (None, err, st1, node))
      | FnInvNode nm args \<Rightarrow>
          (case executeFnInv w st nm args of
             (Inl err, st1) \<Rightarrow> Some (None, Some err, st1, node)
           | (Inr v, st1) \<Rightarrow> Some (None, None, st1, node))
      | ForNode ident inVar tr \<Rightarrow>
          (case executeFor exT k w st ident inVar tr of
             None \<Rightarrow> None
           | Some (err, st1, tr1) \<Rightarrow> Some (None, err, st1, ForNode ident inVar tr1))
      | BindFnNode nm cmdName \<Rightarrow>
          (case executeBindFn st nm cmdName of (err, st1) \<Rightarrow> Some (None, err, st1, node))
      | DumpNode fnameArg \<Rightarrow>
          (case executeDump w st fnameArg of (err, st1) \<Rightarrow> Some (None, err, st1, node))
      | ReturnNode ret \<Rightarrow>
          if isFn (self (shl st))
          then (case executeReturn w st ret of (v, err) \<Rightarrow> Some (v, err, st, node))
          else Some (None, Some (NewError ''Unexpected return outside of function declaration.''),
                     st, node)
      | OtherNode \<Rightarrow> Some (None, Some (NewError (''invalid node: '' @ fmtNode w node @ ''.'')), st, node))"

primrec walkNodes :: "(node \<Rightarrow> state \<Rightarrow> nodeResult) \<Rightarrow> bool \<Rightarrow> node list \<Rightarrow> state
                        \<Rightarrow> (obj option \<times> nashError option \<times> state \<times> node list) option" where
  "walkNodes exN stopable [] st = Some (None, None, st, [])"
| "walkNodes exN stopable (node # rest) st =
     (case exN node st of
        None \<Rightarrow> None
      | Some (v, err, st1, node1) \<Rightarrow>
          (case err of
             Some e \<Rightarrow>
               if Ignore e
               then (case walkNodes exN stopable rest st1 of
                       None \<Rightarrow> None
                     | Some (v2, err2, st2, rest2) \<Rightarrow> Some (v2, err2, st2, node1 # rest2))
               else if Interrupted e then Some (None, Some e, st1, node1 # rest)
               else if stopable \<and> StopWalking e then Some (v, None, st1, node1 # rest)
               else Some (v, Some e, st1, node1 # rest)
           | None \<Rightarrow>
               (case walkNodes exN stopable rest st1 of
                  None \<Rightarrow> None
                | Some (v2, err2, st2, rest2) \<Rightarrow> Some (v2, err2, st2, node1 # rest2))))"

definition executeTreeWith :: "(node \<Rightarrow> state \<Rightarrow> nodeResult) \<Rightarrow> treeExec" where
  "executeTreeWith exN tr stopable st =
     (case tr of
        None \<Rightarrow> Some (None, Some (NewError ''empty abstract syntax tree to execute''), st, tr)
      | Some t \<Rightarrow>
          (case Root t of
             None \<Rightarrow>
               Some (None, Some (NewError ''empty abstract syntax tree to execute''), st, tr)
           | Some nodes \<Rightarrow>
               (case walkNodes exN stopable nodes st of
                  None \<Rightarrow> None
                | Some (v, err, st1, nodes1) \<Rightarrow>
                    Some (v, err, st1, Some (Tree (treeName t) (Some nodes1))))))"

text \<open>
  The recursion closed: \<open>executeTree (Suc k)\<close> runs its nodes with \<open>executeNode\<close>, whose
  blocks are run by \<open>executeTree k\<close>.
\<close>

primrec executeTree :: "nat \<Rightarrow> world \<Rightarrow> treeExec" where
  "executeTree 0 w = (\<lambda>tr stopable st. None)"
| "executeTree (Suc k) w = executeTreeWith (executeNode (executeTree k w) k w)"

definition ExecuteTree :: "nat \<Rightarrow> world \<Rightarrow> tree option \<Rightarrow> state \<Rightarrow> treeResult" where
  "ExecuteTree k w tr st = executeTree k w tr True st"

text \<open>
  The statement of the walk needs the nodes that do not end it: \<open>passNodes\<close> runs a list of
  nodes of which each ends without an error or with an error to ignore, and gives the state
  and the nodes they leave; it is \<open>None\<close> when one of them ends otherwise.
\<close>

primrec passNodes :: "(node \<Rightarrow> state \<Rightarrow> nodeResult) \<Rightarrow> node list \<Rightarrow> state
                        \<Rightarrow> (state \<times> node list) option" where
  "passNodes exN [] st = Some (st, [])"
| "passNodes exN (n # ns) st =
     (case exN n st of
        None \<Rightarrow> None
      | Some (v, err, st1, n1) \<Rightarrow>
          if (case err of None \<Rightarrow> True | Some e \<Rightarrow> Ignore e)
          then (case passNodes exN ns st1 of
                  None \<Rightarrow> None
                | Some (st2, ns1) \<Rightarrow> Some (st2, n1 # ns1))
          else None)"

section \<open>A concrete world\<close>

text \<open>
  A world in which no command is on the PATH, no file exists and every runner succeeds
  without touching the state. The closed examples below are evaluated in it, or in a variant
  of it.
\<close>

definition world0 :: world where
  "world0 =
     \<lparr>fmtObj = (\<lambda>v. ''<obj>''), fmtType = (\<lambda>t. ''<type>''), fmtExpr = (\<lambda>e. ''<expr>''),
      fmtArgs = (\<lambda>es. ''<args>''), fmtNode = (\<lambda>n. ''<node>''),
      atoiError = (\<lambda>t. NewError ''invalid syntax''),
      pathDir = (\<lambda>p. ''.''),
      osStat = (\<lambda>p st. None),
      readFile = (\<lambda>p st. Inl (NewError ''no such file or directory'')),
      parse = (\<lambda>p c. Inr (Tree p (Some []))),
      buildenv = (\<lambda>e. []),
      NewCmd = (\<lambda>n st. Inl (NashError ''not found'' NotFoundErr None)),
      runSetArgs = (\<lambda>r es st. Inr (r\<lparr>runArgs := es\<rparr>)),
      runStdoutPipe = (\<lambda>r st. (Inr (Handle 0, r), st)),
      runStart = (\<lambda>r st. (None, st)),
      runWait = (\<lambda>r st. (None, st)),
      runResults = (\<lambda>r st. None),
      openFile = (\<lambda>p create st. (Inr (Handle 1), st)),
      netDial = (\<lambda>proto a st. (Inr (Handle 2), st)),
      executeRfork = (\<lambda>n st. (None, st)),
      NewUserFn = (\<lambda>n st. None),
      dump = (\<lambda>f st. st)\<rparr>"

text \<open>A root shell with a list \<open>l\<close> of three strings and an index \<open>i\<close>.\<close>

definition shL :: shell where
  "shL = Setvar ''i'' (StrObj ''1'')
           (Setvar ''l'' (ListObj [StrObj ''a'', StrObj ''b'', StrObj ''c'']) rootShell)"

text \<open>The same shell with a list \<open>m\<close> that holds the string \<open>2\<close>.\<close>

definition shLM :: shell where
  "shLM = Setvar ''m'' (ListObj [StrObj ''2'']) shL"

text \<open>The root shell in an empty process environment.\<close>

definition state0 :: state where
  "state0 = \<lparr>shl = rootShell, osEnv = Map.empty, buffers = (\<lambda>a. []), nextBuffer = 0,
             outside = 0\<rparr>"



text \<open>
  A world in which \<open>true\<close> and \<open>false\<close> are on the PATH and \<open>false\<close> exits with
  status 1.
\<close>

definition cmdRunner :: "string \<Rightarrow> runner" where
  "cmdRunner n = \<lparr>kind = CmdRunner n, runArgs = [], runEnviron = [], runStdin = NoStream,
                   runStdout = NoStream, runStderr = NoStream\<rparr>"



text \<open>
  A function scope under the root with a list \<open>l\<close> of two strings, and a block that returns
  before its second statement.
\<close>

definition stFn :: state where
  "stFn = state0\<lparr>shl := Setvar ''l'' (ListObj [StrObj ''a'', StrObj ''b''])
                           (NewSubShell ''fn'' rootShell)\<rparr>"

definition retBlock :: "node list" where
  "retBlock = [ReturnNode (Some (StringExpr ''1'' True)), AssignmentNode ''y'' (StringExpr ''no'' True)]"

text \<open>
  A world with a command \<open>tick\<close> that counts its runs in the outside world; from its
  second run on, a \<open>SIGINT\<close> has been flagged when it ends.
\<close>

definition worldTick :: world where
  "worldTick = world0
     \<lparr>NewCmd := (\<lambda>n st. if n = ''tick'' then Inr (cmdRunner n)
                         else Inl (NashError ''not found'' NotFoundErr None)),
      runWait := (\<lambda>r st. if kind r = CmdRunner ''tick''
                          then (None, st\<lparr>outside := Suc (outside st),
                                          shl := (if 1 \<le> outside st then setIntr True (shl st)
                                                  else shl st)\<rparr>)
                          else (None, st))\<rparr>"






text \<open>The function scope at the first round of a loop over \<open>l\<close>, and a loop body that runs \<open>tick\<close> and returns.\<close>

definition stX :: state where
  "stX = stFn\<lparr>shl := Setvar ''x'' (StrObj ''a'') (shl stFn)\<rparr>"

definition tickBlock :: "tree option" where
  "tickBlock = Some (Tree ''for block''
      (Some [CommandStmt (CommandNode ''tick'' [] []), ReturnNode None,
             AssignmentNode ''y'' (StringExpr ''no'' True)]))"




section \<open>Scope lookup and assignment\<close>

lemma scopes_ne: "scopes s \<noteq> []"
  by (cases s) simp

lemma last_scopes: "last (scopes s) = rootOf s"
  by (induction s rule: rootOf.induct) (simp_all add: scopes_ne)

text \<open>
  C3. \<open>Setvar\<close> on a scope \<open>C\<close> with parent \<open>P\<close> changes the \<open>vars\<close> map of \<open>C\<close> and
  nothing else: afterwards \<open>GetVar n\<close> on \<open>C\<close> is the value written, the parent is the
  same \<open>P\<close> (so every lookup on \<open>P\<close> is unchanged), and a name with no binding in the own
  map of \<open>C\<close> is looked up in \<open>P\<close>.
\<close>

theorem Setvar_GetVar_scope_chain:
  "GetVar n (Setvar n v (Shell c (Some P))) = Some v
   \<and> self (Setvar n v (Shell c (Some P))) = c\<lparr>vars := (vars c)(n \<mapsto> v)\<rparr>
   \<and> parent (Setvar n v (Shell c (Some P))) = Some P
   \<and> (vars c m = None \<longrightarrow> GetVar m (Shell c (Some P)) = GetVar m P)"
  by (simp add: Setvar_def)

theorem Setvar_GetVar_scope_chain_witness:
  "vars (self (NewSubShell ''fn'' rootShell)) ''x'' = None
   \<and> GetVar ''x'' (NewSubShell ''fn'' (Setvar ''x'' (StrObj ''1'') rootShell)) = Some (StrObj ''1'')
   \<and> GetVar ''x'' (Setvar ''x'' (StrObj ''2'') (NewSubShell ''fn'' (Setvar ''x'' (StrObj ''1'') rootShell)))
       = Some (StrObj ''2'')
   \<and> parent (Setvar ''x'' (StrObj ''2'') (NewSubShell ''fn'' (Setvar ''x'' (StrObj ''1'') rootShell)))
       = Some (Setvar ''x'' (StrObj ''1'') rootShell)"
  using Setvar_GetVar_scope_chain
    [of "''x''" "StrObj ''2''" "self (NewSubShell ''fn'' rootShell)"
        "Setvar ''x'' (StrObj ''1'') rootShell" "''x''"]
  by (simp add: NewSubShell_def rootShell_def Setvar_def)

section \<open>The environment\<close>

lemma Setenv_root_vars: "vars (rootOf (fst (Setenv w n v s pe))) = (vars (rootOf s))(n \<mapsto> v)"
  by (induction w n v s pe rule: Setenv.induct) (auto simp: Setvar_def split: prod.splits)

lemma Setenv_root_env: "env (rootOf (fst (Setenv w n v s pe))) = (env (rootOf s))(n \<mapsto> v)"
  by (induction w n v s pe rule: Setenv.induct) (auto simp: Setvar_def split: prod.splits)

lemma Setenv_scopes: "butlast (scopes (fst (Setenv w n v s pe))) = butlast (scopes s)"
  by (induction w n v s pe rule: Setenv.induct)
     (auto simp: Setvar_def scopes_ne split: prod.splits)

lemma Setenv_length: "length (scopes (fst (Setenv w n v s pe))) = length (scopes s)"
  by (induction w n v s pe rule: Setenv.induct)
     (auto simp: Setvar_def split: prod.splits)

lemma Setenv_os: "snd (Setenv w n v s pe) = osSetenv n (String w v) pe"
  by (induction w n v s pe rule: Setenv.induct) (auto simp: Setvar_def split: prod.splits)

text \<open>
  C4, as the code has it. \<open>Setenv\<close> called on any shell of a chain binds the name to the
  value in the \<open>env\<close> and the \<open>vars\<close> map of the root; every scope of the chain but the
  root is left as it was; and the process environment holds \<open>n = str(v)\<close> when
  \<open>os.Setenv\<close> accepts the pair, that is, when the name is not empty and has no \<open>=\<close>
  and no NUL byte and the text of the value has no NUL byte. \<open>os.Setenv\<close> rejects every
  other pair and the process environment is then unchanged.
\<close>

theorem Setenv_delegates_to_root:
  "env (rootOf (fst (Setenv w n v S pe))) n = Some v
   \<and> vars (rootOf (fst (Setenv w n v S pe))) n = Some v
   \<and> butlast (scopes (fst (Setenv w n v S pe))) = butlast (scopes S)
   \<and> length (scopes (fst (Setenv w n v S pe))) = length (scopes S)
   \<and> (n \<noteq> [] \<and> CHR ''='' \<notin> set n \<and> CHR 0x00 \<notin> set n \<and> CHR 0x00 \<notin> set (String w v)
        \<longrightarrow> snd (Setenv w n v S pe) n = Some (String w v))
   \<and> (\<not> (n \<noteq> [] \<and> CHR ''='' \<notin> set n \<and> CHR 0x00 \<notin> set n \<and> CHR 0x00 \<notin> set (String w v))
        \<longrightarrow> snd (Setenv w n v S pe) = pe)"
  by (simp add: Setenv_root_vars Setenv_root_env Setenv_scopes Setenv_length Setenv_os
        osSetenv_def)

theorem Setenv_delegates_to_root_witness:
  "''PATH'' \<noteq> [] \<and> CHR ''='' \<notin> set ''PATH'' \<and> CHR 0x00 \<notin> set ''PATH''
   \<and> CHR 0x00 \<notin> set (String world0 (StrObj ''/bin''))
   \<and> snd (Setenv world0 ''PATH'' (StrObj ''/bin'') (NewSubShell ''fn'' rootShell) Map.empty) ''PATH''
       = Some ''/bin''
   \<and> env (rootOf (fst (Setenv world0 ''PATH'' (StrObj ''/bin'') (NewSubShell ''fn'' rootShell) Map.empty)))
       ''PATH'' = Some (StrObj ''/bin'')
   \<and> vars (self (fst (Setenv world0 ''PATH'' (StrObj ''/bin'') (NewSubShell ''fn'' rootShell) Map.empty)))
       ''PATH'' = None"
  using Setenv_delegates_to_root
    [of world0 "''PATH''" "StrObj ''/bin''" "NewSubShell ''fn'' rootShell" Map.empty]
  by (simp add: NewSubShell_def rootShell_def Setvar_def String_def osSetenv_def)

text \<open>
  The claim as it is written promises the process environment for every name and value. A
  value with a NUL byte (the captured output of a command can hold one) is bound in the root
  scope but is not mirrored: \<open>os.Setenv\<close> returns \<open>EINVAL\<close>.
\<close>

theorem Setenv_process_env_counterexample:
  "snd (Setenv world0 ''x'' (StrObj [CHR 0x00]) rootShell Map.empty) ''x'' = None
   \<and> vars (rootOf (fst (Setenv world0 ''x'' (StrObj [CHR 0x00]) rootShell Map.empty))) ''x''
       = Some (StrObj [CHR 0x00])"
  by (simp add: rootShell_def Setvar_def String_def osSetenv_def)

section \<open>Indexing a list\<close>

lemma Atoi_1: "Atoi ''1'' = Some 1"
  by code_simp

text \<open>
  What \<open>evalIndexedVar\<close> gets right. The indexed variable must be set and hold a list,
  else it fails. An index that is an integer literal is used as it is; an index that is a
  variable must be set and hold a string that \<open>Atoi\<close> parses, else it fails. The integer
  \<open>i\<close> that \<open>indexNum\<close> gives is checked against the list: the result is the element at
  \<open>i\<close> when \<open>0 \<le> i < len\<close>, and the out-of-bounds error otherwise, so the list is only
  read inside its bounds.
\<close>

lemma evalIndexedVar_bounds_checked:
  "(\<forall>e. evalVarExpr w sh var = Inl e \<longrightarrow> evalIndexedVar w sh var index = Inl e)
   \<and> (\<forall>v. evalVarExpr w sh var = Inr v \<and> Type v \<noteq> ListType
          \<longrightarrow> isl (evalIndexedVar w sh var index))
   \<and> (\<forall>vals. evalVarExpr w sh var = Inr (ListObj vals) \<longrightarrow>
          (\<forall>e. indexNum w sh index = Inl e \<longrightarrow> evalIndexedVar w sh var index = Inl e)
        \<and> (\<forall>i. indexNum w sh index = Inr i \<longrightarrow>
              (0 \<le> i \<and> i < int (length vals)
                 \<longrightarrow> evalIndexedVar w sh var index = Inr (vals ! nat i))
            \<and> (\<not> (0 \<le> i \<and> i < int (length vals))
                 \<longrightarrow> evalIndexedVar w sh var index
                      = Inl (NewError (''Index out of bounds. len('' @ Name var @ '') == ''
                              @ Itoa (int (length vals)) @ '', but given '' @ Itoa i)))))
   \<and> indexNum w sh (IntExpr k) = Inr k
   \<and> (\<forall>e. evalVarExpr w sh iv = Inl e \<longrightarrow> indexNum w sh (VarExpr iv) = Inl e)
   \<and> (\<forall>v. evalVarExpr w sh iv = Inr v \<and> Type v \<noteq> StringType
          \<longrightarrow> isl (indexNum w sh (VarExpr iv)))
   \<and> (\<forall>s. evalVarExpr w sh iv = Inr (StrObj s) \<longrightarrow>
          indexNum w sh (VarExpr iv)
            = (case Atoi s of None \<Rightarrow> Inl (atoiError w s) | Some i \<Rightarrow> Inr i))"
  by (auto simp: evalIndexedVar_def indexNum_def Type_def List_def Str_def
           split: obj.splits sum.splits option.splits)

lemma evalIndexedVar_bounds_checked_example:
  "evalVarExpr world0 shL (VarName CHR ''$'' ''l'')
     = Inr (ListObj [StrObj ''a'', StrObj ''b'', StrObj ''c''])
   \<and> evalVarExpr world0 shL (VarName CHR ''$'' ''i'') = Inr (StrObj ''1'')
   \<and> indexNum world0 shL (VarExpr (VarName CHR ''$'' ''i'')) = Inr 1
   \<and> evalIndexedVar world0 shL (VarName CHR ''$'' ''l'') (VarExpr (VarName CHR ''$'' ''i''))
       = Inr (StrObj ''b'')
   \<and> isl (evalIndexedVar world0 shL (VarName CHR ''$'' ''l'') (IntExpr 3))"
  using evalIndexedVar_bounds_checked
    [of world0 shL "VarName CHR ''$'' ''l''" "VarExpr (VarName CHR ''$'' ''i'')" 0
        "VarName CHR ''$'' ''i''"]
  by (simp add: shL_def evalVarExpr_def evalIndexedVar_def indexNum_def rootShell_def
        Setvar_def Type_def List_def Str_def Atoi_1)

text \<open>
  C8. The claim holds of an index that is a literal or a plain variable, and the code breaks
  it at an index that is itself an indexed variable. The parser reads the index of
  \<open>$l[$m[0]]\<close> by calling \<open>parseVariable\<close> again, which returns an \<open>IndexExpr\<close> for
  \<open>$m[0]\<close>. \<open>evalIndexedVar\<close> tests the index for \<open>NodeIntExpr\<close> and
  \<open>NodeVarExpr\<close> and has no \<open>else\<close>: the index is neither evaluated nor refused, and
  \<open>indexNum\<close> keeps its zero value. With \<open>l = ("a" "b" "c")\<close> and \<open>m = ("2")\<close>, where
  \<open>$m[0]\<close> is \<open>"2"\<close> and \<open>$l[2]\<close> is \<open>"c"\<close>, the value of \<open>$l[$m[0]]\<close> is the
  first element \<open>"a"\<close>, and no error.
\<close>

theorem evalIndexedVar_nested_index_reads_first_element:
  "evalIndexedVar world0 shLM (VarName CHR ''$'' ''l'')
       (IndexExpr (VarName CHR ''$'' ''m'') (IntExpr 0)) = Inr (StrObj ''a'')
   \<and> indexNum world0 shLM (IndexExpr (VarName CHR ''$'' ''m'') (IntExpr 0)) = Inr 0
   \<and> evalExpr world0 shLM (IndexExpr (VarName CHR ''$'' ''m'') (IntExpr 0)) = Inr (StrObj ''2'')
   \<and> evalIndexedVar world0 shLM (VarName CHR ''$'' ''l'') (IntExpr 2) = Inr (StrObj ''c'')"
  by (simp add: shLM_def shL_def evalVarExpr_def evalIndexedVar_def indexNum_def rootShell_def
        Setvar_def Type_def List_def Str_def)

section \<open>A command bound to a function\<close>



section \<open>Pipelines\<close>

































section \<open>The tree walk\<close>

lemma walkNodes_pass:
  "passNodes exN pre st = Some (st1, pre1) \<Longrightarrow>
   walkNodes exN stopable (pre @ rest) st =
     (case walkNodes exN stopable rest st1 of
        None \<Rightarrow> None
      | Some (v2, err2, st2, rest2) \<Rightarrow> Some (v2, err2, st2, pre1 @ rest2))"
proof (induction pre arbitrary: st pre1)
  case Nil
  then show ?case by (auto split: option.splits)
next
  case (Cons n ns)
  then show ?case
    by (auto split: option.splits prod.splits if_splits)
qed

lemma walkNodes_all_pass:
  "passNodes exN nodes st = Some (st1, nodes1) \<Longrightarrow>
   walkNodes exN stopable nodes st = Some (None, None, st1, nodes1)"
  using walkNodes_pass[of exN nodes st st1 nodes1 stopable "[]"] by simp

text \<open>
  C2. The walk over the nodes of a tree: the nodes before \<open>node\<close> each end without an
  error or with an error to ignore, and \<open>node\<close> ends with the error \<open>e\<close>. If \<open>e\<close> is an
  error to ignore, the walk goes on with the nodes after it. If \<open>e\<close> is an interrupted
  error, the walk ends at once and returns \<open>e\<close> (and no value). If \<open>e\<close> is a
  stop-walking error and the walk is stopable, the walk ends and returns the value of the
  node and no error. Any other error ends the walk and is returned with the value of the
  node. When every node passes, the walk returns no value and no error. A \<open>ReturnNode\<close>
  in a scope whose \<open>isFn\<close> is false gives the error "Unexpected return outside of
  function declaration."; in a scope whose \<open>isFn\<close> is true it gives the stop-walking
  error together with the value of its expression (no value when it has no expression), or
  the error of the expression when that fails.
\<close>

theorem executeTree_error_carriers:
  "(passNodes exN pre st = Some (st1, pre1) \<and> exN node st1 = Some (v, Some e, st2, node1) \<longrightarrow>
      walkNodes exN stopable (pre @ node # rest) st =
        (if Ignore e
         then (case walkNodes exN stopable rest st2 of
                 None \<Rightarrow> None
               | Some (v3, err3, st3, rest3) \<Rightarrow> Some (v3, err3, st3, pre1 @ node1 # rest3))
         else if Interrupted e then Some (None, Some e, st2, pre1 @ node1 # rest)
         else if stopable \<and> StopWalking e then Some (v, None, st2, pre1 @ node1 # rest)
         else Some (v, Some e, st2, pre1 @ node1 # rest)))
   \<and> (passNodes exN nodes st = Some (st1, nodes1) \<longrightarrow>
        walkNodes exN stopable nodes st = Some (None, None, st1, nodes1))
   \<and> executeTree (Suc k) w (Some (Tree nm (Some nodes))) stopable st =
        (case walkNodes (executeNode (executeTree k w) k w) stopable nodes st of
           None \<Rightarrow> None
         | Some (v4, err4, st4, nodes4) \<Rightarrow> Some (v4, err4, st4, Some (Tree nm (Some nodes4))))
   \<and> (\<not> isFn (self (shl st)) \<longrightarrow>
        executeNode exT k w (ReturnNode r) st =
          Some (None, Some (NewError ''Unexpected return outside of function declaration.''),
                st, ReturnNode r))
   \<and> (isFn (self (shl st)) \<longrightarrow>
        executeNode exT k w (ReturnNode None) st =
          Some (None, Some newErrStopWalking, st, ReturnNode None))
   \<and> (isFn (self (shl st)) \<and> evalExpr w (shl st) ex = Inr x \<longrightarrow>
        executeNode exT k w (ReturnNode (Some ex)) st =
          Some (Some x, Some newErrStopWalking, st, ReturnNode (Some ex)))
   \<and> (isFn (self (shl st)) \<and> evalExpr w (shl st) ex = Inl err \<longrightarrow>
        executeNode exT k w (ReturnNode (Some ex)) st =
          Some (None, Some err, st, ReturnNode (Some ex)))
   \<and> StopWalking newErrStopWalking \<and> \<not> Ignore newErrStopWalking
   \<and> \<not> Interrupted newErrStopWalking"
proof -
  have a: "walkNodes exN stopable (pre @ node # rest) st =
        (if Ignore e
         then (case walkNodes exN stopable rest st2 of
                 None \<Rightarrow> None
               | Some (v3, err3, st3, rest3) \<Rightarrow> Some (v3, err3, st3, pre1 @ node1 # rest3))
         else if Interrupted e then Some (None, Some e, st2, pre1 @ node1 # rest)
         else if stopable \<and> StopWalking e then Some (v, None, st2, pre1 @ node1 # rest)
         else Some (v, Some e, st2, pre1 @ node1 # rest))"
    if "passNodes exN pre st = Some (st1, pre1)" "exN node st1 = Some (v, Some e, st2, node1)"
    using that walkNodes_pass[of exN pre st st1 pre1 stopable "node # rest"]
    by (auto split: option.splits)
  have b: "executeTree (Suc k) w (Some (Tree nm (Some nodes))) stopable st =
        (case walkNodes (executeNode (executeTree k w) k w) stopable nodes st of
           None \<Rightarrow> None
         | Some (v4, err4, st4, nodes4) \<Rightarrow> Some (v4, err4, st4, Some (Tree nm (Some nodes4))))"
    by (simp add: executeTreeWith_def split: option.splits)
  have c: "StopWalking newErrStopWalking \<and> \<not> Ignore newErrStopWalking
             \<and> \<not> Interrupted newErrStopWalking"
    by (simp add: StopWalking_def Ignore_def Interrupted_def newErrStopWalking_def)
  show ?thesis
    using a b c walkNodes_all_pass[of exN nodes st st1 nodes1 stopable]
    by (simp add: executeNode_def executeReturn_def)
qed


theorem executeTree_error_carriers_witness:
  "passNodes (executeNode (executeTree 0 world0) 0 world0) [] stFn = Some (stFn, [])
   \<and> isFn (self (shl stFn))
   \<and> executeNode (executeTree 0 world0) 0 world0 (ReturnNode (Some (StringExpr ''1'' True))) stFn
       = Some (Some (StrObj ''1''), Some newErrStopWalking, stFn,
               ReturnNode (Some (StringExpr ''1'' True)))
   \<and> walkNodes (executeNode (executeTree 0 world0) 0 world0) True retBlock stFn
       = Some (Some (StrObj ''1''), None, stFn, retBlock)
   \<and> walkNodes (executeNode (executeTree 0 world0) 0 world0) False retBlock stFn
       = Some (Some (StrObj ''1''), Some newErrStopWalking, stFn, retBlock)"
  using executeTree_error_carriers
    [of "executeNode (executeTree 0 world0) 0 world0" "[]" stFn stFn "[]"
        "ReturnNode (Some (StringExpr ''1'' True))" "Some (StrObj ''1'')" newErrStopWalking stFn
        "ReturnNode (Some (StringExpr ''1'' True))" True
        "[AssignmentNode ''y'' (StringExpr ''no'' True)]"]
    executeTree_error_carriers
    [of "executeNode (executeTree 0 world0) 0 world0" "[]" stFn stFn "[]"
        "ReturnNode (Some (StringExpr ''1'' True))" "Some (StrObj ''1'')" newErrStopWalking stFn
        "ReturnNode (Some (StringExpr ''1'' True))" False
        "[AssignmentNode ''y'' (StringExpr ''no'' True)]"]
  by (simp add: retBlock_def executeNode_def executeReturn_def stFn_def NewSubShell_def
        Setvar_def state0_def StopWalking_def Ignore_def Interrupted_def newErrStopWalking_def)

section \<open>Interrupting a loop\<close>




lemma getIntr_setIntr: "getIntr (setIntr b sh) = b"
  by (induction b sh rule: setIntr.induct) simp_all












section \<open>A return in the body of a loop\<close>

lemma forRange_stopable_only:
  "(\<And>t s. exT t True s = exT' t True s) \<Longrightarrow>
   forRange exT ident vals tr st = forRange exT' ident vals tr st"
  by (induction vals arbitrary: tr st) (auto split: option.splits)

lemma executeInfLoop_stopable_only:
  "(\<And>t s. exT t True s = exT' t True s) \<Longrightarrow>
   executeInfLoop k exT tr st = executeInfLoop k exT' tr st"
  by (induction k arbitrary: tr st) (auto split: option.splits)

lemma executeFor_stopable_only:
  assumes "\<And>t s. exT t True s = exT' t True s"
  shows "executeFor exT k w st ident inVar tr = executeFor exT' k w st ident inVar tr"
  using forRange_stopable_only[of exT exT', OF assms]
    executeInfLoop_stopable_only[of exT exT', OF assms]
  by (simp add: executeFor_def split: sum.splits)

lemma return_walk:
  assumes "passNodes (executeNode (executeTree k w) k w) pre st1 = Some (st2, pre1)"
    and "isFn (self (shl st2))"
    and "executeReturn w st2 r = (v, Some newErrStopWalking)"
  shows "executeTree (Suc k) w (Some (Tree nm (Some (pre @ ReturnNode r # post)))) True st1
           = Some (v, None, st2, Some (Tree nm (Some (pre1 @ ReturnNode r # post))))"
proof -
  have "executeNode (executeTree k w) k w (ReturnNode r) st2
          = Some (v, Some newErrStopWalking, st2, ReturnNode r)"
    using assms(2,3) by (simp add: executeNode_def)
  then have "walkNodes (executeNode (executeTree k w) k w) True (ReturnNode r # post) st2
          = Some (v, None, st2, ReturnNode r # post)"
    by (simp add: Ignore_def Interrupted_def StopWalking_def newErrStopWalking_def)
  with walkNodes_pass[OF assms(1), of True "ReturnNode r # post"]
  show ?thesis by (simp add: executeTreeWith_def)
qed

text \<open>
  C9. Both loops run their body only as a stopable walk: a loop is the same for any two
  walkers that agree on stopable walks. In a body whose nodes before a \<open>return\<close> pass,
  in a function scope, with a \<open>return\<close> whose expression (if any) evaluates, the walk of
  the body ends at the \<open>return\<close> with its value and no error, and the nodes after it are
  not run. With the interrupt flag not set, the loop then goes on: the infinite loop with
  its next round, the loop over a list with the values that are left.
\<close>

theorem for_body_return_consumed:
  "((\<forall>t s. exT t True s = exT' t True s) \<longrightarrow>
      executeFor exT n w st0 ident inVar tr0 = executeFor exT' n w st0 ident inVar tr0)
   \<and> (passNodes (executeNode (executeTree k w) k w) pre st1 = Some (st2, pre1)
        \<and> isFn (self (shl st2)) \<and> executeReturn w st2 r = (v, Some newErrStopWalking) \<longrightarrow>
        executeTree (Suc k) w (Some (Tree nm (Some (pre @ ReturnNode r # post)))) True st1
          = Some (v, None, st2, Some (Tree nm (Some (pre1 @ ReturnNode r # post))))
      \<and> (\<not> getIntr (shl st2) \<longrightarrow>
           executeInfLoop (Suc n) (executeTree (Suc k) w)
               (Some (Tree nm (Some (pre @ ReturnNode r # post)))) st1
             = executeInfLoop n (executeTree (Suc k) w)
                 (Some (Tree nm (Some (pre1 @ ReturnNode r # post)))) st2
         \<and> (st1 = st\<lparr>shl := Setvar ident val (shl st)\<rparr> \<longrightarrow>
              forRange (executeTree (Suc k) w) ident (val # rest)
                  (Some (Tree nm (Some (pre @ ReturnNode r # post)))) st
                = forRange (executeTree (Suc k) w) ident rest
                    (Some (Tree nm (Some (pre1 @ ReturnNode r # post)))) st2)))
   \<and> executeReturn w st2 None = (None, Some newErrStopWalking)
   \<and> (evalExpr w (shl st2) ex = Inr x \<longrightarrow>
        executeReturn w st2 (Some ex) = (Some x, Some newErrStopWalking))"
proof -
  have a: "(\<forall>t s. exT t True s = exT' t True s) \<longrightarrow>
      executeFor exT n w st0 ident inVar tr0 = executeFor exT' n w st0 ident inVar tr0"
    using executeFor_stopable_only[of exT exT'] by blast
  have b: "executeTree (Suc k) w (Some (Tree nm (Some (pre @ ReturnNode r # post)))) True st1
          = Some (v, None, st2, Some (Tree nm (Some (pre1 @ ReturnNode r # post))))"
    if "passNodes (executeNode (executeTree k w) k w) pre st1 = Some (st2, pre1)"
      "isFn (self (shl st2))" "executeReturn w st2 r = (v, Some newErrStopWalking)"
    using return_walk[OF that] .
  have c: "executeInfLoop (Suc n) (executeTree (Suc k) w)
               (Some (Tree nm (Some (pre @ ReturnNode r # post)))) st1
             = executeInfLoop n (executeTree (Suc k) w)
                 (Some (Tree nm (Some (pre1 @ ReturnNode r # post)))) st2"
    if "passNodes (executeNode (executeTree k w) k w) pre st1 = Some (st2, pre1)"
      "isFn (self (shl st2))" "executeReturn w st2 r = (v, Some newErrStopWalking)"
      "\<not> getIntr (shl st2)"
    using return_walk[OF that(1,2,3), of nm post] that(4)
    by (simp add: intrErr_def del: executeTree.simps)
  have d: "forRange (executeTree (Suc k) w) ident (val # rest)
                  (Some (Tree nm (Some (pre @ ReturnNode r # post)))) st
                = forRange (executeTree (Suc k) w) ident rest
                    (Some (Tree nm (Some (pre1 @ ReturnNode r # post)))) st2"
    if "passNodes (executeNode (executeTree k w) k w) pre st1 = Some (st2, pre1)"
      "isFn (self (shl st2))" "executeReturn w st2 r = (v, Some newErrStopWalking)"
      "\<not> getIntr (shl st2)" "st1 = st\<lparr>shl := Setvar ident val (shl st)\<rparr>"
    using return_walk[OF that(1,2,3), of nm post] that(4,5)
    by (simp add: intrErr_def del: executeTree.simps)
  have e: "executeReturn w st2 None = (None, Some newErrStopWalking)"
    by (simp add: executeReturn_def)
  have f: "evalExpr w (shl st2) ex = Inr x \<longrightarrow>
        executeReturn w st2 (Some ex) = (Some x, Some newErrStopWalking)"
    by (simp add: executeReturn_def)
  from a b c d e f show ?thesis by blast
qed


lemma range_loop_with_return:
  "(case executeFor (executeTree 1 world0) 1 world0 stFn ''x'' ''$l''
           (Some (Tree ''for block'' (Some retBlock))) of
      None \<Rightarrow> False
    | Some (err, st1, tr1) \<Rightarrow>
        err = None \<and> GetVar ''x'' (shl st1) = Some (StrObj ''b'') \<and> GetVar ''y'' (shl st1) = None)"
  by code_simp

lemma function_body_goes_on:
  "(case executeTree 2 world0
           (Some (Tree ''fn'' (Some [ForNode ''x'' ''$l'' (Some (Tree ''for block'' (Some retBlock))),
                                     AssignmentNode ''z'' (StringExpr ''after'' True)])))
           True stFn of
      None \<Rightarrow> False
    | Some (v, err, st1, tr1) \<Rightarrow>
        v = None \<and> err = None \<and> GetVar ''z'' (shl st1) = Some (StrObj ''after''))"
  by code_simp

lemma inf_loop_with_return:
  "(case executeFor (executeTree 1 worldTick) 5 worldTick stFn ''x'' [] tickBlock of
      None \<Rightarrow> False
    | Some (err, st1, tr1) \<Rightarrow>
        err = Some (newErrInterrupted ''loop interrupted'') \<and> outside st1 = 2
        \<and> GetVar ''y'' (shl st1) = None)"
  by code_simp

theorem for_body_return_consumed_witness:
  "passNodes (executeNode (executeTree 0 world0) 0 world0) [] stX = Some (stX, [])
   \<and> isFn (self (shl stX))
   \<and> executeReturn world0 stX (Some (StringExpr ''1'' True))
       = (Some (StrObj ''1''), Some newErrStopWalking)
   \<and> \<not> getIntr (shl stX)
   \<and> executeTree 1 world0 (Some (Tree ''for block'' (Some retBlock))) True stX
       = Some (Some (StrObj ''1''), None, stX, Some (Tree ''for block'' (Some retBlock)))
   \<and> forRange (executeTree 1 world0) ''x'' [StrObj ''a'', StrObj ''b'']
         (Some (Tree ''for block'' (Some retBlock))) stFn
       = forRange (executeTree 1 world0) ''x'' [StrObj ''b'']
           (Some (Tree ''for block'' (Some retBlock))) stX
   \<and> (case executeFor (executeTree 1 world0) 1 world0 stFn ''x'' ''$l''
              (Some (Tree ''for block'' (Some retBlock))) of
        None \<Rightarrow> False
      | Some (err, st1, tr1) \<Rightarrow>
          err = None \<and> GetVar ''x'' (shl st1) = Some (StrObj ''b'')
          \<and> GetVar ''y'' (shl st1) = None)
   \<and> (case executeTree 2 world0
              (Some (Tree ''fn'' (Some [ForNode ''x'' ''$l'' (Some (Tree ''for block'' (Some retBlock))),
                                        AssignmentNode ''z'' (StringExpr ''after'' True)])))
              True stFn of
        None \<Rightarrow> False
      | Some (v, err, st1, tr1) \<Rightarrow>
          v = None \<and> err = None \<and> GetVar ''z'' (shl st1) = Some (StrObj ''after''))
   \<and> (case executeFor (executeTree 1 worldTick) 5 worldTick stFn ''x'' [] tickBlock of
        None \<Rightarrow> False
      | Some (err, st1, tr1) \<Rightarrow>
          err = Some (newErrInterrupted ''loop interrupted'') \<and> outside st1 = 2
          \<and> GetVar ''y'' (shl st1) = None)"
proof -
  have fn: "isFn (self (shl stX))"
    by (simp add: stX_def stFn_def NewSubShell_def Setvar_def state0_def)
  have ret: "executeReturn world0 stX (Some (StringExpr ''1'' True))
       = (Some (StrObj ''1''), Some newErrStopWalking)"
    by (simp add: executeReturn_def)
  have ni: "\<not> getIntr (shl stX)"
    by (simp add: stX_def stFn_def NewSubShell_def Setvar_def state0_def rootShell_def)
  have sx: "stX = stFn\<lparr>shl := Setvar ''x'' (StrObj ''a'') (shl stFn)\<rparr>"
    by (simp add: stX_def)
  show ?thesis
    using for_body_return_consumed
      [where k = 0 and w = world0 and pre = "[]" and ?st1.0 = stX and ?st2.0 = stX
         and ?pre1.0 = "[]" and r = "Some (StringExpr ''1'' True)" and v = "Some (StrObj ''1'')"
         and nm = "''for block''"
         and post = "[AssignmentNode ''y'' (StringExpr ''no'' True)]"
         and st = stFn and ident = "''x''" and val = "StrObj ''a''" and rest = "[StrObj ''b'']"
         and n = 0]
      fn ret ni sx range_loop_with_return function_body_goes_on inf_loop_with_return
    by (simp add: retBlock_def del: executeTree.simps forRange.simps)
qed

end
